theory Spec2Isabelle
  imports Complex_Main
begin

section \<open>Vectors and matrices of the glm library\<close>

text \<open>
  The Python sources compute with \<^verbatim>\<open>glm.vec3\<close>, \<^verbatim>\<open>glm.mat3x3\<close> and Python floats.
  Floating-point numbers are modelled as real numbers with exact arithmetic: rounding error,
  infinities and NaN are outside the model. Every glm operation the sources call is written
  out below, component by component, in glm's column-major convention (\<^verbatim>\<open>m[c][r]\<close> is
  row \<^verbatim>\<open>r\<close> of column \<^verbatim>\<open>c\<close>).
\<close>

datatype vec3 = Vec3 (vx: real) (vy: real) (vz: real)

datatype vec4 = Vec4 (wx: real) (wy: real) (wz: real) (ww: real)

text \<open>A \<^verbatim>\<open>mat3x3\<close> and a \<^verbatim>\<open>mat4\<close> are their columns.\<close>

datatype mat3 = Mat3 (col0: vec3) (col1: vec3) (col2: vec3)

datatype mat4 = Mat4 (mcol0: vec4) (mcol1: vec4) (mcol2: vec4) (mcol3: vec4)

fun vec_add :: "vec3 \<Rightarrow> vec3 \<Rightarrow> vec3" where
  "vec_add (Vec3 a b c) (Vec3 d e f) = Vec3 (a + d) (b + e) (c + f)"

fun vec_sub :: "vec3 \<Rightarrow> vec3 \<Rightarrow> vec3" where
  "vec_sub (Vec3 a b c) (Vec3 d e f) = Vec3 (a - d) (b - e) (c - f)"

fun vec_neg :: "vec3 \<Rightarrow> vec3" where
  "vec_neg (Vec3 a b c) = Vec3 (- a) (- b) (- c)"

text \<open>\<^verbatim>\<open>s * v\<close> and \<^verbatim>\<open>v * s\<close> for a scalar \<^verbatim>\<open>s\<close>.\<close>

fun vec_scale :: "real \<Rightarrow> vec3 \<Rightarrow> vec3" where
  "vec_scale s (Vec3 a b c) = Vec3 (s * a) (s * b) (s * c)"

text \<open>\<^verbatim>\<open>v / s\<close> for a scalar \<^verbatim>\<open>s\<close>.\<close>

fun vec_div :: "vec3 \<Rightarrow> real \<Rightarrow> vec3" where
  "vec_div (Vec3 a b c) s = Vec3 (a / s) (b / s) (c / s)"

fun glm_dot :: "vec3 \<Rightarrow> vec3 \<Rightarrow> real" where
  "glm_dot (Vec3 a b c) (Vec3 d e f) = a * d + b * e + c * f"

fun glm_cross :: "vec3 \<Rightarrow> vec3 \<Rightarrow> vec3" where
  "glm_cross (Vec3 a b c) (Vec3 d e f) = Vec3 (b * f - e * c) (c * d - f * a) (a * e - d * b)"

definition glm_length :: "vec3 \<Rightarrow> real" where
  "glm_length v = sqrt (glm_dot v v)"

text \<open>glm normalises by multiplying with the inverse square root of the squared length.\<close>

definition glm_normalize :: "vec3 \<Rightarrow> vec3" where
  "glm_normalize v = vec_scale (1 / sqrt (glm_dot v v)) v"

text \<open>\<^verbatim>\<open>m * v\<close>: the linear combination of the columns.\<close>

fun mat3_mul_vec :: "mat3 \<Rightarrow> vec3 \<Rightarrow> vec3" where
  "mat3_mul_vec (Mat3 c0 c1 c2) (Vec3 a b c) =
     vec_add (vec_add (vec_scale a c0) (vec_scale b c1)) (vec_scale c c2)"

text \<open>
  \<^verbatim>\<open>glm.inverse\<close> of a 3x3 matrix: the cofactors times one over the determinant. For a
  determinant of zero glm divides one by zero and every entry of the result is infinite or
  NaN: there is no matrix of real numbers then, and the model returns \<open>None\<close>.
\<close>

fun glm_inverse :: "mat3 \<Rightarrow> mat3 option" where
  "glm_inverse (Mat3 (Vec3 m00 m01 m02) (Vec3 m10 m11 m12) (Vec3 m20 m21 m22)) =
     (let determinant =
            m00 * (m11 * m22 - m21 * m12)
            - m10 * (m01 * m22 - m21 * m02)
            + m20 * (m01 * m12 - m11 * m02)
      in if determinant = 0 then None
         else
           let one_over_determinant = 1 / determinant
           in Some (Mat3
                (Vec3 ((m11 * m22 - m21 * m12) * one_over_determinant)
                      (- (m01 * m22 - m21 * m02) * one_over_determinant)
                      ((m01 * m12 - m11 * m02) * one_over_determinant))
                (Vec3 (- (m10 * m22 - m20 * m12) * one_over_determinant)
                      ((m00 * m22 - m20 * m02) * one_over_determinant)
                      (- (m00 * m12 - m10 * m02) * one_over_determinant))
                (Vec3 ((m10 * m21 - m20 * m11) * one_over_determinant)
                      (- (m00 * m21 - m20 * m01) * one_over_determinant)
                      ((m00 * m11 - m10 * m01) * one_over_determinant))))"

text \<open>
  The Python exceptions the modelled code can raise. \<open>FloatNotFinite\<close> is no exception: it
  marks a call that returns normally after a float division by zero inside glm, so that
  the state it leaves holds infinite or NaN values and no real numbers.
\<close>

datatype error =
  ZeroDivisionError | IndexError | TypeError | AttributeError | UnboundLocalError | ValueError
  | FloatNotFinite

section \<open>math_functions.py\<close>

text \<open>
  \<^verbatim>\<open>get_furthest_point\<close>: the loop keeps the best point and its dot product, starting from
  the origin and the sentinel \<^verbatim>\<open>-1e6\<close>; a point replaces the best one only when its dot
  product is strictly greater.
\<close>

fun furthest_loop :: "vec3 list \<Rightarrow> vec3 \<Rightarrow> vec3 \<Rightarrow> real \<Rightarrow> vec3" where
  "furthest_loop [] direction_vector best_point best_dot = best_point"
| "furthest_loop (point # points) direction_vector best_point best_dot =
     (let dot = glm_dot point direction_vector
      in if dot > best_dot then furthest_loop points direction_vector point dot
         else furthest_loop points direction_vector best_point best_dot)"

definition get_furthest_point :: "vec3 list \<Rightarrow> vec3 \<Rightarrow> vec3" where
  "get_furthest_point points direction_vector =
     furthest_loop points direction_vector (Vec3 0 0 0) (- 1000000)"

text \<open>
  \<^verbatim>\<open>get_support_point\<close> evaluates the difference of the two furthest points as an expression
  statement and falls off the end of its body: the call returns Python's \<^verbatim>\<open>None\<close>.
\<close>

definition get_support_point :: "vec3 list \<Rightarrow> vec3 list \<Rightarrow> vec3 \<Rightarrow> vec3 option" where
  "get_support_point points1 points2 direction_vector =
     (let discarded = vec_sub (get_furthest_point points1 direction_vector)
                        (get_furthest_point points2 (vec_neg direction_vector))
      in None)"

section \<open>physics_body_handler.py\<close>

text \<open>A quaternion \<^verbatim>\<open>glm.quat\<close> as its components w, x, y, z.\<close>

datatype quat = Quat (qw: real) (qx: real) (qy: real) (qz: real)

record point_physics_body =
  mass :: real
  velocity :: vec3

record physics_body = point_physics_body +
  rotational_velocity :: real
  axis_of_rotation :: vec3
  rotation :: quat

text \<open>
  The constructors. An omitted vector argument is Python's \<^verbatim>\<open>None\<close>; a \<^verbatim>\<open>glm.vec3\<close> that is
  passed is truthy (glm vectors define no truth value of their own and have length 3), so
  \<^verbatim>\<open>velocity if velocity else glm.vec3(0, 0, 0)\<close> replaces only \<^verbatim>\<open>None\<close>. No statement of
  either constructor raises: the result is always \<open>Inr\<close>.
\<close>

definition PointPhysicsBody_init :: "real \<Rightarrow> vec3 option \<Rightarrow> error + point_physics_body" where
  "PointPhysicsBody_init m v =
     Inr \<lparr>mass = m, velocity = (case v of Some u \<Rightarrow> u | None \<Rightarrow> Vec3 0 0 0)\<rparr>"

definition PhysicsBody_init ::
  "real \<Rightarrow> vec3 option \<Rightarrow> real \<Rightarrow> vec3 option \<Rightarrow> error + physics_body" where
  "PhysicsBody_init m v rot_vel axis =
     (case PointPhysicsBody_init m v of
        Inl e \<Rightarrow> Inl e
      | Inr base \<Rightarrow>
          Inr \<lparr>mass = mass base, velocity = velocity base,
               rotational_velocity = rot_vel,
               axis_of_rotation = (case axis of Some a \<Rightarrow> a | None \<Rightarrow> Vec3 1 0 0),
               rotation = Quat 1 0 0 0\<rparr>)"

text \<open>
  \<^verbatim>\<open>PhysicsBodyHandler.add_physics_body\<close> appends the new body to the handler's list and
  returns it; the handler is modelled by that list.
\<close>

definition add_physics_body ::
  "physics_body list \<Rightarrow> real \<Rightarrow> vec3 option \<Rightarrow> real \<Rightarrow> vec3 option
     \<Rightarrow> error + (physics_body list \<times> physics_body)" where
  "add_physics_body physics_bodies m v rot_vel axis =
     (case PhysicsBody_init m v rot_vel axis of
        Inl e \<Rightarrow> Inl e
      | Inr body \<Rightarrow> Inr (physics_bodies @ [body], body))"

section \<open>physics_handler.py\<close>

text \<open>
  Python's \<^verbatim>\<open>round(v, 3)\<close>: the nearest multiple of one thousandth, a tie going to the even
  multiple.
\<close>

definition py_round_half_even :: "real \<Rightarrow> int" where
  "py_round_half_even x =
     (let f = \<lfloor>x\<rfloor>; r = x - of_int f
      in if r < 1 / 2 then f else if r > 1 / 2 then f + 1 else if even f then f else f + 1)"

definition py_round3 :: "real \<Rightarrow> real" where
  "py_round3 v = of_int (py_round_half_even (v * 1000)) / 1000"

fun vec_round3 :: "vec3 \<Rightarrow> vec3" where
  "vec_round3 (Vec3 a b c) = Vec3 (py_round3 a) (py_round3 b) (py_round3 c)"

text \<open>
  The friction impulse of the one-body path (lines 79 to 81) and of the two-body path
  (lines 98 to 100). They differ in the threshold the tangential speed is compared with.
\<close>

definition friction_impulse1 :: "real \<Rightarrow> vec3 \<Rightarrow> vec3 \<Rightarrow> vec3" where
  "friction_impulse1 kinetic normal_impulse rel_tan_vel =
     (if glm_length rel_tan_vel < 1 / 1000000 then Vec3 0 0 0
      else vec_scale (- kinetic * glm_length normal_impulse) (glm_normalize rel_tan_vel))"

definition friction_impulse2 :: "real \<Rightarrow> vec3 \<Rightarrow> vec3 \<Rightarrow> vec3" where
  "friction_impulse2 kinetic normal_impulse rel_tan_vel =
     (if glm_length rel_tan_vel < 1000000 then Vec3 0 0 0
      else vec_scale (- kinetic * glm_length normal_impulse) (glm_normalize rel_tan_vel))"

text \<open>
  The impulse before the final rounding. The division by the denominator is a division of
  Python floats and raises \<^verbatim>\<open>ZeroDivisionError\<close> when the denominator is zero.
\<close>

definition impulse1_unrounded ::
  "physics_body \<Rightarrow> real \<Rightarrow> vec3 \<Rightarrow> vec3 \<Rightarrow> mat3 \<Rightarrow> real \<Rightarrow> real \<Rightarrow> real \<Rightarrow> vec3
     \<Rightarrow> error + vec3" where
  "impulse1_unrounded body inv_mass omega radius inv_inertia elasticity kinetic static normal =
     (let relative_velocity = vec_add (velocity body) (glm_cross omega radius);
          relative_normal_velocity = glm_dot relative_velocity normal;
          denominator = inv_mass
            + glm_dot normal (glm_cross (mat3_mul_vec inv_inertia (glm_cross radius normal)) radius)
      in if denominator = 0 then Inl ZeroDivisionError
         else
           let normal_impulse_magnitude = - (1 + elasticity) * relative_normal_velocity / denominator;
               normal_impulse = vec_scale normal_impulse_magnitude normal;
               rel_tan_vel = vec_sub relative_velocity
                               (vec_scale (glm_dot relative_velocity normal) normal);
               friction_impulse = friction_impulse1 kinetic normal_impulse rel_tan_vel
           in Inr (vec_add normal_impulse friction_impulse))"

definition calculate_impluse1 ::
  "physics_body \<Rightarrow> real \<Rightarrow> vec3 \<Rightarrow> vec3 \<Rightarrow> mat3 \<Rightarrow> real \<Rightarrow> real \<Rightarrow> real \<Rightarrow> vec3
     \<Rightarrow> error + vec3" where
  "calculate_impluse1 body inv_mass omega radius inv_inertia elasticity kinetic static normal =
     (case impulse1_unrounded body inv_mass omega radius inv_inertia elasticity kinetic static normal of
        Inl e \<Rightarrow> Inl e
      | Inr total_impulse \<Rightarrow> Inr (vec_round3 total_impulse))"

definition impulse2_unrounded ::
  "physics_body \<Rightarrow> physics_body \<Rightarrow> real \<Rightarrow> real \<Rightarrow> vec3 \<Rightarrow> vec3 \<Rightarrow> vec3 \<Rightarrow> vec3
     \<Rightarrow> mat3 \<Rightarrow> mat3 \<Rightarrow> real \<Rightarrow> real \<Rightarrow> real \<Rightarrow> vec3 \<Rightarrow> error + vec3" where
  "impulse2_unrounded body1 body2 inv_mass1 inv_mass2 omega1 omega2 radius1 radius2
       inv_inertia1 inv_inertia2 elasticity kinetic static normal =
     (let relative_velocity =
            vec_sub (vec_add (velocity body1) (glm_cross omega1 radius1))
                    (vec_add (velocity body2) (glm_cross omega2 radius2));
          relative_normal_velocity = glm_dot relative_velocity normal;
          term1 = inv_mass1 + inv_mass2;
          term2 = glm_dot normal
                    (vec_add (glm_cross (mat3_mul_vec inv_inertia1 (glm_cross radius1 normal)) radius1)
                             (glm_cross (mat3_mul_vec inv_inertia2 (glm_cross radius2 normal)) radius2))
      in if term1 + term2 = 0 then Inl ZeroDivisionError
         else
           let normal_impulse =
                 vec_scale (- (1 + elasticity) * relative_normal_velocity / (term1 + term2)) normal;
               rel_tan_vel = vec_sub relative_velocity
                               (vec_scale (glm_dot relative_velocity normal) normal);
               friction_impulse = friction_impulse2 kinetic normal_impulse rel_tan_vel
           in Inr (vec_add normal_impulse friction_impulse))"

definition calculate_impulse2 ::
  "physics_body \<Rightarrow> physics_body \<Rightarrow> real \<Rightarrow> real \<Rightarrow> vec3 \<Rightarrow> vec3 \<Rightarrow> vec3 \<Rightarrow> vec3
     \<Rightarrow> mat3 \<Rightarrow> mat3 \<Rightarrow> real \<Rightarrow> real \<Rightarrow> real \<Rightarrow> vec3 \<Rightarrow> error + vec3" where
  "calculate_impulse2 body1 body2 inv_mass1 inv_mass2 omega1 omega2 radius1 radius2
       inv_inertia1 inv_inertia2 elasticity kinetic static normal =
     (case impulse2_unrounded body1 body2 inv_mass1 inv_mass2 omega1 omega2 radius1 radius2
             inv_inertia1 inv_inertia2 elasticity kinetic static normal of
        Inl e \<Rightarrow> Inl e
      | Inr total_impulse \<Rightarrow> Inr (vec_round3 total_impulse))"

text \<open>\<^verbatim>\<open>apply_impulse\<close> mutates the body; the model returns the new body.\<close>

definition apply_impulse :: "vec3 \<Rightarrow> vec3 \<Rightarrow> mat3 \<Rightarrow> real \<Rightarrow> physics_body \<Rightarrow> physics_body" where
  "apply_impulse radius impulse_signed inv_inertia inv_mass body =
     (let body1 = body\<lparr>velocity := vec_add (velocity body) (vec_scale inv_mass impulse_signed)\<rparr>;
          delta_omega = mat3_mul_vec inv_inertia (glm_cross radius impulse_signed);
          angular_velocity_vector =
            vec_add (vec_scale (rotational_velocity body1) (axis_of_rotation body1)) delta_omega
      in if glm_length angular_velocity_vector < 1 / 1000000
         then body1\<lparr>rotational_velocity := 0, axis_of_rotation := Vec3 1 0 0\<rparr>
         else body1\<lparr>rotational_velocity := glm_length angular_velocity_vector,
                    axis_of_rotation := glm_normalize angular_velocity_vector\<rparr>)"

section \<open>collider_handler.py\<close>

fun vec4_add :: "vec4 \<Rightarrow> vec4 \<Rightarrow> vec4" where
  "vec4_add (Vec4 a b c d) (Vec4 e f g h) = Vec4 (a + e) (b + f) (c + g) (d + h)"

fun vec4_scale :: "real \<Rightarrow> vec4 \<Rightarrow> vec4" where
  "vec4_scale s (Vec4 a b c d) = Vec4 (s * a) (s * b) (s * c) (s * d)"

text \<open>\<^verbatim>\<open>glm.mat4()\<close> is the identity.\<close>

definition mat4_identity :: mat4 where
  "mat4_identity = Mat4 (Vec4 1 0 0 0) (Vec4 0 1 0 0) (Vec4 0 0 1 0) (Vec4 0 0 0 1)"

fun mat4_mul_vec :: "mat4 \<Rightarrow> vec4 \<Rightarrow> vec4" where
  "mat4_mul_vec (Mat4 m0 m1 m2 m3) (Vec4 a b c d) =
     vec4_add (vec4_add (vec4_scale a m0) (vec4_scale b m1))
              (vec4_add (vec4_scale c m2) (vec4_scale d m3))"

text \<open>\<^verbatim>\<open>glm.translate\<close>, \<^verbatim>\<open>glm.rotate\<close> and \<^verbatim>\<open>glm.scale\<close> multiply the matrix from the right.\<close>

fun glm_translate :: "mat4 \<Rightarrow> vec3 \<Rightarrow> mat4" where
  "glm_translate (Mat4 m0 m1 m2 m3) (Vec3 x y z) =
     Mat4 m0 m1 m2
       (vec4_add (vec4_add (vec4_add (vec4_scale x m0) (vec4_scale y m1)) (vec4_scale z m2)) m3)"

fun glm_rotate :: "mat4 \<Rightarrow> real \<Rightarrow> vec3 \<Rightarrow> mat4" where
  "glm_rotate (Mat4 m0 m1 m2 m3) angle v =
     (let c = cos angle; s = sin angle;
          axis = glm_normalize v;
          temp = vec_scale (1 - c) axis;
          r00 = c + vx temp * vx axis;
          r01 = vx temp * vy axis + s * vz axis;
          r02 = vx temp * vz axis - s * vy axis;
          r10 = vy temp * vx axis - s * vz axis;
          r11 = c + vy temp * vy axis;
          r12 = vy temp * vz axis + s * vx axis;
          r20 = vz temp * vx axis + s * vy axis;
          r21 = vz temp * vy axis - s * vx axis;
          r22 = c + vz temp * vz axis
      in Mat4
           (vec4_add (vec4_add (vec4_scale r00 m0) (vec4_scale r01 m1)) (vec4_scale r02 m2))
           (vec4_add (vec4_add (vec4_scale r10 m0) (vec4_scale r11 m1)) (vec4_scale r12 m2))
           (vec4_add (vec4_add (vec4_scale r20 m0) (vec4_scale r21 m1)) (vec4_scale r22 m2))
           m3)"

fun glm_scale :: "mat4 \<Rightarrow> vec3 \<Rightarrow> mat4" where
  "glm_scale (Mat4 m0 m1 m2 m3) (Vec3 x y z) =
     Mat4 (vec4_scale x m0) (vec4_scale y m1) (vec4_scale z m2) m3"

text \<open>
  A collider. \<open>unique_points\<close> stands for
  \<^verbatim>\<open>self.collider_handler.prefabs[self.prefab].unique_points\<close>, the vertices of the prefab,
  which the collider only reads; \<open>data\<close> is the Python list position, scale, rotation.
\<close>

record collider =
  data :: "real list"
  unique_points :: "vec3 list"
  vertices :: "vec3 list"
  dimensions :: vec3
  geometric_center :: vec3
  base_volume :: real
  static :: bool
  elasticity :: real
  inertia_tensor :: mat3
  static_friction :: real
  kinetic_friction :: real

text \<open>
  \<^verbatim>\<open>Collider.get_model_matrix\<close>. A list with fewer than three entries makes
  \<^verbatim>\<open>glm.translate\<close> reject \<^verbatim>\<open>data[:3]\<close> (TypeError); with three to eight entries one of
  \<^verbatim>\<open>data[6]\<close>, \<^verbatim>\<open>data[7]\<close>, \<^verbatim>\<open>data[8]\<close> is out of range (IndexError).
\<close>

definition get_model_matrix :: "collider \<Rightarrow> error + mat4" where
  "get_model_matrix self =
     (let d = data self
      in if length d < 3 then Inl TypeError
         else if length d < 9 then Inl IndexError
         else
           let m1 = glm_translate mat4_identity (Vec3 (d ! 0) (d ! 1) (d ! 2));
               m2 = glm_rotate m1 (d ! 6) (Vec3 (- 1) 0 0);
               m3 = glm_rotate m2 (d ! 7) (Vec3 0 (- 1) 0);
               m4 = glm_rotate m3 (d ! 8) (Vec3 0 0 (- 1))
           in Inr (glm_scale m4 (Vec3 (d ! 3) (d ! 4) (d ! 5))))"

fun transform_vertex :: "mat4 \<Rightarrow> vec3 \<Rightarrow> vec3" where
  "transform_vertex model_matrix (Vec3 x y z) =
     (case mat4_mul_vec model_matrix (Vec4 x y z 1) of Vec4 a b c d \<Rightarrow> Vec3 a b c)"

definition get_real_vertex_locations :: "collider \<Rightarrow> error + vec3 list" where
  "get_real_vertex_locations self =
     (case get_model_matrix self of
        Inl e \<Rightarrow> Inl e
      | Inr model_matrix \<Rightarrow> Inr (map (transform_vertex model_matrix) (unique_points self)))"

text \<open>The loop of \<^verbatim>\<open>get_geometric_center\<close> over the world vertices: minimums, then maximums.\<close>

fun extent_loop :: "vec3 list \<Rightarrow> vec3 \<Rightarrow> vec3 \<Rightarrow> vec3 \<times> vec3" where
  "extent_loop [] minimums maximums = (minimums, maximums)"
| "extent_loop (Vec3 px py pz # points) (Vec3 nx ny nz) (Vec3 mx my mz) =
     extent_loop points
       (Vec3 (if px < nx then px else nx) (if py < ny then py else ny) (if pz < nz then pz else nz))
       (Vec3 (if px > mx then px else mx) (if py > my then py else my) (if pz > mz then pz else mz))"

definition get_geometric_center :: "collider \<Rightarrow> vec3" where
  "get_geometric_center self =
     (case extent_loop (vertices self)
             (Vec3 10000000000 10000000000 10000000000)
             (Vec3 (- 10000000000) (- 10000000000) (- 10000000000)) of
        (Vec3 nx ny nz, Vec3 mx my mz) \<Rightarrow> Vec3 ((mx + nx) / 2) ((my + ny) / 2) ((mz + nz) / 2))"

text \<open>
  \<^verbatim>\<open>get_dimensions\<close> runs the same loop over the prefab vertices scaled component-wise by
  \<^verbatim>\<open>data[3]\<close>, \<^verbatim>\<open>data[4]\<close>, \<^verbatim>\<open>data[5]\<close>.
\<close>

definition get_dimensions :: "collider \<Rightarrow> vec3" where
  "get_dimensions self =
     (let d = data self in
      case extent_loop
             (map (\<lambda>point. Vec3 (vx point * d ! 3) (vy point * d ! 4) (vz point * d ! 5))
                (unique_points self))
             (Vec3 10000000000 10000000000 10000000000)
             (Vec3 (- 10000000000) (- 10000000000) (- 10000000000)) of
        (Vec3 nx ny nz, Vec3 mx my mz) \<Rightarrow> Vec3 (mx - nx) (my - ny) (mz - nz))"

text \<open>
  \<^verbatim>\<open>get_inertia_tensor\<close>: the loop adds to six entries of the matrix, the three entries below
  are then copied, and the matrix is multiplied by the mass and divided by the vertex count.
  With no vertex the division is glm's float division of the zero matrix by zero, an
  all-NaN matrix: the model returns \<open>None\<close>.
\<close>

fun inertia_loop :: "vec3 list \<Rightarrow> vec3 \<Rightarrow> mat3 \<Rightarrow> mat3" where
  "inertia_loop [] center t = t"
| "inertia_loop (vertex # vs) center (Mat3 (Vec3 t00 t01 t02) (Vec3 t10 t11 t12) (Vec3 t20 t21 t22)) =
     (case vec_sub vertex center of
        Vec3 rx ry rz \<Rightarrow>
          inertia_loop vs center
            (Mat3 (Vec3 (t00 + (ry * ry + rz * rz)) (t01 - rx * ry) (t02 - rx * rz))
                  (Vec3 t10 (t11 + (rx * rx + rz * rz)) (t12 - ry * rz))
                  (Vec3 t20 t21 (t22 + (rx * rx + ry * ry)))))"

fun symmetrize :: "mat3 \<Rightarrow> mat3" where
  "symmetrize (Mat3 (Vec3 t00 t01 t02) (Vec3 t10 t11 t12) (Vec3 t20 t21 t22)) =
     Mat3 (Vec3 t00 t01 t02) (Vec3 t01 t11 t12) (Vec3 t02 t12 t22)"

fun mat3_scale :: "real \<Rightarrow> mat3 \<Rightarrow> mat3" where
  "mat3_scale s (Mat3 c0 c1 c2) = Mat3 (vec_scale s c0) (vec_scale s c1) (vec_scale s c2)"

fun mat3_div :: "mat3 \<Rightarrow> real \<Rightarrow> mat3" where
  "mat3_div (Mat3 c0 c1 c2) s = Mat3 (vec_div c0 s) (vec_div c1 s) (vec_div c2 s)"

definition mat3_zero :: mat3 where
  "mat3_zero = Mat3 (Vec3 0 0 0) (Vec3 0 0 0) (Vec3 0 0 0)"

definition get_inertia_tensor :: "collider \<Rightarrow> real \<Rightarrow> mat3 option" where
  "get_inertia_tensor self m =
     (if vertices self = [] then None
      else Some (mat3_div
             (mat3_scale m
                (symmetrize (inertia_loop (vertices self) (geometric_center self) mat3_zero)))
             (real (length (vertices self)))))"

text \<open>
  \<^verbatim>\<open>Collider.set_data\<close>. The dimensions are recomputed inside the test on the scale entries,
  and the inertia tensor inside the test on the rotation entries, which is nested in the
  first one. A call that raises returns the error alone, and so does a call that stores an
  all-NaN inertia tensor.
\<close>

definition set_data :: "collider \<Rightarrow> real list \<Rightarrow> error + collider" where
  "set_data self new_data =
     (let oldData = data self;
          self1 = self\<lparr>data := new_data\<rparr>
      in case get_real_vertex_locations self1 of
           Inl e \<Rightarrow> Inl e
         | Inr vs \<Rightarrow>
             let self2 = self1\<lparr>vertices := vs\<rparr>;
                 self3 = self2\<lparr>geometric_center := get_geometric_center self2\<rparr>
             in if take 3 (drop 3 oldData) \<noteq> take 3 (drop 3 (data self3))
                then
                  let self4 = self3\<lparr>dimensions := get_dimensions self3\<rparr>
                  in if drop 6 oldData \<noteq> drop 6 (data self4)
                     then (case get_inertia_tensor self4 1 of
                             None \<Rightarrow> Inl FloatNotFinite
                           | Some tensor \<Rightarrow> Inr (self4\<lparr>inertia_tensor := tensor\<rparr>))
                     else Inr self4
                else Inr self3)"

section \<open>physics_handler.py: resolving a collision\<close>

text \<open>
  The loop over the contact points when both colliders have a physics body: every contact
  point computes its impulse from the bodies as the earlier points left them, divides it by
  the number of points and applies it to body 1 and, negated, to body 2.
\<close>

fun collisions_loop2 ::
  "vec3 list \<Rightarrow> vec3 \<Rightarrow> collider \<Rightarrow> collider \<Rightarrow> real \<Rightarrow> real \<Rightarrow> mat3 \<Rightarrow> mat3
     \<Rightarrow> real \<Rightarrow> real \<Rightarrow> real \<Rightarrow> real \<Rightarrow> physics_body \<Rightarrow> physics_body
     \<Rightarrow> error + (physics_body \<times> physics_body)" where
  "collisions_loop2 [] normal collider1 collider2 inv_mass1 inv_mass2 inv_inertia1 inv_inertia2
       elasticity' kinetic static' num_points body1 body2 = Inr (body1, body2)"
| "collisions_loop2 (contact_point # contact_points) normal collider1 collider2 inv_mass1 inv_mass2
       inv_inertia1 inv_inertia2 elasticity' kinetic static' num_points body1 body2 =
     (let radius1 = vec_sub contact_point (geometric_center collider1);
          radius2 = vec_sub contact_point (geometric_center collider2)
      in case calculate_impulse2 body1 body2 inv_mass1 inv_mass2
                (vec_scale (rotational_velocity body1) (axis_of_rotation body1))
                (vec_scale (rotational_velocity body2) (axis_of_rotation body2))
                radius1 radius2 inv_inertia1 inv_inertia2 elasticity' kinetic static' normal of
           Inl e \<Rightarrow> Inl e
         | Inr computed \<Rightarrow>
             let impulse = vec_div computed num_points
             in collisions_loop2 contact_points normal collider1 collider2 inv_mass1 inv_mass2
                  inv_inertia1 inv_inertia2 elasticity' kinetic static' num_points
                  (apply_impulse radius1 impulse inv_inertia1 inv_mass1 body1)
                  (apply_impulse radius2 (vec_neg impulse) inv_inertia2 inv_mass2 body2))"

text \<open>Only body 1 has physics: the impulse is applied negated.\<close>

fun collisions_loop_first ::
  "vec3 list \<Rightarrow> vec3 \<Rightarrow> collider \<Rightarrow> real \<Rightarrow> mat3 \<Rightarrow> real \<Rightarrow> real \<Rightarrow> real \<Rightarrow> real
     \<Rightarrow> physics_body \<Rightarrow> error + physics_body" where
  "collisions_loop_first [] normal collider1 inv_mass1 inv_inertia1 elasticity' kinetic static'
       num_points body1 = Inr body1"
| "collisions_loop_first (contact_point # contact_points) normal collider1 inv_mass1 inv_inertia1
       elasticity' kinetic static' num_points body1 =
     (let radius = vec_sub contact_point (geometric_center collider1)
      in case calculate_impluse1 body1 inv_mass1
                (vec_scale (rotational_velocity body1) (axis_of_rotation body1))
                radius inv_inertia1 elasticity' kinetic static' normal of
           Inl e \<Rightarrow> Inl e
         | Inr computed \<Rightarrow>
             let impulse = vec_div computed num_points
             in collisions_loop_first contact_points normal collider1 inv_mass1 inv_inertia1
                  elasticity' kinetic static' num_points
                  (apply_impulse radius (vec_neg impulse) inv_inertia1 inv_mass1 body1))"

text \<open>Only body 2 has physics: the impulse is applied as it is.\<close>

fun collisions_loop_second ::
  "vec3 list \<Rightarrow> vec3 \<Rightarrow> collider \<Rightarrow> real \<Rightarrow> mat3 \<Rightarrow> real \<Rightarrow> real \<Rightarrow> real \<Rightarrow> real
     \<Rightarrow> physics_body \<Rightarrow> error + physics_body" where
  "collisions_loop_second [] normal collider2 inv_mass2 inv_inertia2 elasticity' kinetic static'
       num_points body2 = Inr body2"
| "collisions_loop_second (contact_point # contact_points) normal collider2 inv_mass2 inv_inertia2
       elasticity' kinetic static' num_points body2 =
     (let radius = vec_sub contact_point (geometric_center collider2)
      in case calculate_impluse1 body2 inv_mass2
                (vec_scale (rotational_velocity body2) (axis_of_rotation body2))
                radius inv_inertia2 elasticity' kinetic static' normal of
           Inl e \<Rightarrow> Inl e
         | Inr computed \<Rightarrow>
             let impulse = vec_div computed num_points
             in collisions_loop_second contact_points normal collider2 inv_mass2 inv_inertia2
                  elasticity' kinetic static' num_points
                  (apply_impulse radius impulse inv_inertia2 inv_mass2 body2))"

text \<open>
  \<^verbatim>\<open>glm.inverse(collider.get_inertia_tensor(mass))\<close>: no matrix of real numbers when the
  collider has no vertex or its tensor is singular.
\<close>

definition inverse_inertia :: "collider \<Rightarrow> real \<Rightarrow> mat3 option" where
  "inverse_inertia self m =
     (case get_inertia_tensor self m of None \<Rightarrow> None | Some tensor \<Rightarrow> glm_inverse tensor)"

text \<open>
  \<^verbatim>\<open>calculate_collisions\<close>. A body that is \<^verbatim>\<open>None\<close> is \<open>None\<close>; \<^verbatim>\<open>1 / mass\<close> raises for a
  mass of zero. With no physics body at all the last branch reads \<^verbatim>\<open>inv_mass2\<close>, which was
  never assigned, as soon as there is a contact point. The inverse inertia matrices are
  computed before the loops and used by every contact point: with no contact point the
  bodies stay as they are, and with a contact point and an inverse that is infinite or NaN
  the call returns with bodies whose rotational state is infinite or NaN, which is
  \<open>FloatNotFinite\<close>. The result is the pair of bodies after the call.
\<close>

definition calculate_collisions ::
  "vec3 \<Rightarrow> collider \<Rightarrow> collider \<Rightarrow> physics_body option \<Rightarrow> physics_body option \<Rightarrow> vec3 list
     \<Rightarrow> error + (physics_body option \<times> physics_body option)" where
  "calculate_collisions normal collider1 collider2 physics_body1 physics_body2 contact_points =
     (if (case physics_body1 of Some b \<Rightarrow> mass b = 0 | None \<Rightarrow> False)
         \<or> (case physics_body2 of Some b \<Rightarrow> mass b = 0 | None \<Rightarrow> False)
      then Inl ZeroDivisionError
      else
        let elasticity = max (elasticity collider1) (elasticity collider2);
            kinetic = 8 / 10;
            static = min (static_friction collider1) (static_friction collider2);
            num_points = real (length contact_points)
        in case (physics_body1, physics_body2) of
             (Some b1, Some b2) \<Rightarrow>
               (if contact_points = [] then Inr (Some b1, Some b2)
                else case (inverse_inertia collider1 (mass b1),
                           inverse_inertia collider2 (mass b2)) of
                  (Some inv_inertia1, Some inv_inertia2) \<Rightarrow>
                    (case collisions_loop2 contact_points normal collider1 collider2
                            (1 / mass b1) (1 / mass b2) inv_inertia1 inv_inertia2
                            elasticity kinetic static num_points b1 b2 of
                       Inl e \<Rightarrow> Inl e
                     | Inr (b1', b2') \<Rightarrow> Inr (Some b1', Some b2'))
                | _ \<Rightarrow> Inl FloatNotFinite)
           | (Some b1, None) \<Rightarrow>
               (if contact_points = [] then Inr (Some b1, None)
                else case inverse_inertia collider1 (mass b1) of
                  Some inv_inertia1 \<Rightarrow>
                    (case collisions_loop_first contact_points normal collider1 (1 / mass b1)
                            inv_inertia1 elasticity kinetic static num_points b1 of
                       Inl e \<Rightarrow> Inl e
                     | Inr b1' \<Rightarrow> Inr (Some b1', None))
                | None \<Rightarrow> Inl FloatNotFinite)
           | (None, Some b2) \<Rightarrow>
               (if contact_points = [] then Inr (None, Some b2)
                else case inverse_inertia collider2 (mass b2) of
                  Some inv_inertia2 \<Rightarrow>
                    (case collisions_loop_second contact_points normal collider2 (1 / mass b2)
                            inv_inertia2 elasticity kinetic static num_points b2 of
                       Inl e \<Rightarrow> Inl e
                     | Inr b2' \<Rightarrow> Inr (None, Some b2'))
                | None \<Rightarrow> Inl FloatNotFinite)
           | (None, None) \<Rightarrow>
               (if contact_points = [] then Inr (None, None) else Inl UnboundLocalError))"

section \<open>narrow_collisions.py\<close>

text \<open>Python indexing of a list: a negative index counts from the end, anything else raises.\<close>

definition py_index :: "'a list \<Rightarrow> int \<Rightarrow> error + 'a" where
  "py_index xs i =
     (if 0 \<le> i \<and> i < int (length xs) then Inr (xs ! nat i)
      else if i < 0 \<and> - int (length xs) \<le> i then Inr (xs ! nat (int (length xs) + i))
      else Inl IndexError)"

text \<open>The local function \<^verbatim>\<open>signed_volume\<close>, with the normal it closes over as first argument.\<close>

definition signed_volume :: "vec3 \<Rightarrow> vec3 \<Rightarrow> vec3 \<Rightarrow> vec3 \<Rightarrow> real" where
  "signed_volume normal p1 p2 p3 = glm_dot (glm_cross (vec_sub p1 p3) (vec_sub p2 p3)) normal / 6"

definition get_support_points_from_minkowski :: "vec3 list \<Rightarrow> vec3 list \<Rightarrow> vec3 \<Rightarrow> vec3 \<times> vec3" where
  "get_support_points_from_minkowski points1 points2 minkowski_point =
     (let direction = minkowski_point;
          support1 = get_furthest_point points1 direction;
          support2 = get_furthest_point points2 (vec_neg direction)
      in (support1, support2))"

text \<open>Lines 23 to 57 of \<^verbatim>\<open>calculate_contact_point\<close>, once the face vertices are read.\<close>

definition contact_point_of_face :: "vec3 list \<Rightarrow> vec3 list \<Rightarrow> vec3 \<Rightarrow> vec3 \<Rightarrow> vec3 \<Rightarrow> vec3 \<Rightarrow> vec3" where
  "contact_point_of_face points1 points2 a b c normal =
     (let total_volume = signed_volume normal a b c
      in if total_volume = 0 then Vec3 0 0 0
         else
           let volume_pbc = signed_volume normal (Vec3 0 0 0) b c;
               volume_pca = signed_volume normal (Vec3 0 0 0) c a;
               volume_pab = signed_volume normal (Vec3 0 0 0) a b;
               u = volume_pbc / total_volume;
               v = volume_pca / total_volume;
               w = volume_pab / total_volume;
               sum_barycentric = u + v + w;
               u' = (if sum_barycentric \<noteq> 0 then u / sum_barycentric else u);
               v' = (if sum_barycentric \<noteq> 0 then v / sum_barycentric else v);
               w' = (if sum_barycentric \<noteq> 0 then w / sum_barycentric else w);
               sa = get_support_points_from_minkowski points1 points2 a;
               sb = get_support_points_from_minkowski points1 points2 b;
               sc = get_support_points_from_minkowski points1 points2 c;
               contact_point1 = vec_add (vec_add (vec_scale u' (fst sa)) (vec_scale v' (fst sb)))
                                  (vec_scale w' (fst sc));
               contact_point2 = vec_add (vec_add (vec_scale u' (snd sa)) (vec_scale v' (snd sb)))
                                  (vec_scale w' (snd sc))
           in contact_point1)"

definition calculate_contact_point ::
  "vec3 list \<Rightarrow> vec3 list \<Rightarrow> vec3 list \<Rightarrow> int list \<Rightarrow> vec3 \<Rightarrow> error + vec3" where
  "calculate_contact_point points1 points2 polytope face normal =
     (case py_index face 0 of Inl e \<Rightarrow> Inl e | Inr i0 \<Rightarrow>
      case py_index polytope i0 of Inl e \<Rightarrow> Inl e | Inr a \<Rightarrow>
      case py_index face 1 of Inl e \<Rightarrow> Inl e | Inr i1 \<Rightarrow>
      case py_index polytope i1 of Inl e \<Rightarrow> Inl e | Inr b \<Rightarrow>
      case py_index face 2 of Inl e \<Rightarrow> Inl e | Inr i2 \<Rightarrow>
      case py_index polytope i2 of Inl e \<Rightarrow> Inl e | Inr c \<Rightarrow>
        Inr (contact_point_of_face points1 points2 a b c normal))"

text \<open>
  The specification's edge case, in its words: the mean of the three face vertices projected
  on body 1, that is of the body-1 support points in the directions of the face vertices.
\<close>

definition spec_face_mean_on_body1 :: "vec3 list \<Rightarrow> vec3 \<Rightarrow> vec3 \<Rightarrow> vec3 \<Rightarrow> vec3" where
  "spec_face_mean_on_body1 points1 a b c =
     vec_div (vec_add (vec_add (get_furthest_point points1 a) (get_furthest_point points1 b))
                (get_furthest_point points1 c)) 3"

section \<open>joints.py\<close>

text \<open>
  The \<^verbatim>\<open>Collection\<close> class is imported from outside the sources; \<^verbatim>\<open>restrict\<close> reads and writes
  its \<^verbatim>\<open>position\<close> and its \<^verbatim>\<open>physics_body\<close> (\<^verbatim>\<open>None\<close> or a body with a mass and a velocity).
\<close>

record collection =
  position :: vec3
  physics_body :: "physics_body option"

record joint =
  parent_offset :: vec3
  original_parent_offset :: vec4
  child_offset :: real
  spring_constant :: real
  min_radius :: real
  max_radius :: real

text \<open>
  Lines 43 to 54, the body of the branch guarded by \<^verbatim>\<open>if False and (...)\<close>.
  \<^verbatim>\<open>math.sqrt\<close> raises for a negative spring constant, and reading the velocity of a child
  without a physics body raises AttributeError.
\<close>

definition spring_step ::
  "joint \<Rightarrow> collection \<Rightarrow> collection \<Rightarrow> real \<Rightarrow> vec3 \<Rightarrow> vec3 \<Rightarrow> error + (collection \<times> collection)" where
  "spring_step self parent child delta_time direction origin =
     (let force_spring =
            vec_scale (glm_length (vec_sub origin (position child)) - child_offset self)
              (vec_scale (spring_constant self) direction)
      in if spring_constant self < 0 then Inl ValueError
         else case physics_body child of
           None \<Rightarrow> Inl AttributeError
         | Some child_body \<Rightarrow>
             let force_dampen = vec_scale (- sqrt (spring_constant self)) (velocity child_body);
                 force_total = vec_scale (if physics_body parent \<noteq> None then 1 / 2 else 1)
                                 (vec_add force_spring force_dampen);
                 child_velocity = vec_add (velocity child_body)
                                    (vec_scale delta_time (vec_div force_total (mass child_body)));
                 child' = child\<lparr>position := vec_add (position child) (vec_scale delta_time child_velocity),
                                physics_body := Some (child_body\<lparr>velocity := child_velocity\<rparr>)\<rparr>
             in case physics_body parent of
                  None \<Rightarrow> Inr (parent, child')
                | Some parent_body \<Rightarrow>
                    let parent_velocity = vec_add (velocity parent_body)
                          (vec_scale delta_time (vec_div (vec_neg force_total) (mass parent_body)))
                    in Inr (parent\<lparr>position := vec_add (position parent)
                                                 (vec_scale delta_time parent_velocity),
                                   physics_body := Some (parent_body\<lparr>velocity := parent_velocity\<rparr>)\<rparr>,
                            child'))"

text \<open>\<^verbatim>\<open>Joint.restrict\<close>: the pair of parent and child after the call.\<close>

definition restrict :: "joint \<Rightarrow> collection \<Rightarrow> collection \<Rightarrow> real \<Rightarrow> error + (collection \<times> collection)" where
  "restrict self parent child delta_time =
     (let origin = vec_add (position parent) (parent_offset self);
          displacement = vec_sub origin (position child)
      in if glm_length displacement < 1 / 10000000 then Inr (parent, child)
         else
           let direction = glm_normalize displacement
           in if False \<and> (physics_body child \<noteq> None \<or> physics_body parent \<noteq> None)
              then spring_step self parent child delta_time direction origin
              else Inr (parent, child\<lparr>position := origin\<rparr>))"

text \<open>
  The specification's BasicJoint, in its words: snap when neither collection has a physics
  body, otherwise the spring update.
\<close>

definition spec_restrict :: "joint \<Rightarrow> collection \<Rightarrow> collection \<Rightarrow> real \<Rightarrow> error + (collection \<times> collection)" where
  "spec_restrict self parent child delta_time =
     (let origin = vec_add (position parent) (parent_offset self);
          displacement = vec_sub origin (position child)
      in if glm_length displacement < 1 / 10000000 then Inr (parent, child)
         else if physics_body child = None \<and> physics_body parent = None
              then Inr (parent, child\<lparr>position := origin\<rparr>)
              else spring_step self parent child delta_time (glm_normalize displacement) origin)"

section \<open>The invariant of the rotational state\<close>

definition rotation_invariant :: "physics_body \<Rightarrow> bool" where
  "rotation_invariant body \<longleftrightarrow> glm_length (axis_of_rotation body) = 1 \<or> rotational_velocity body = 0"

section \<open>Rounding to three decimals\<close>

text \<open>
  A vector whose components are whole multiples of one thousandth; a vector within half a
  thousandth of another, component by component; a vector whose components are all below
  \<^verbatim>\<open>0.0005\<close> in magnitude.
\<close>

definition three_decimals :: "vec3 \<Rightarrow> bool" where
  "three_decimals v \<longleftrightarrow>
     of_int \<lfloor>vx v * 1000\<rfloor> = vx v * 1000 \<and> of_int \<lfloor>vy v * 1000\<rfloor> = vy v * 1000
     \<and> of_int \<lfloor>vz v * 1000\<rfloor> = vz v * 1000"

definition within_half_milli :: "vec3 \<Rightarrow> vec3 \<Rightarrow> bool" where
  "within_half_milli r v \<longleftrightarrow>
     \<bar>vx r - vx v\<bar> \<le> 1 / 2000 \<and> \<bar>vy r - vy v\<bar> \<le> 1 / 2000 \<and> \<bar>vz r - vz v\<bar> \<le> 1 / 2000"

definition below_half_milli :: "vec3 \<Rightarrow> bool" where
  "below_half_milli v \<longleftrightarrow> \<bar>vx v\<bar> < 5 / 10000 \<and> \<bar>vy v\<bar> < 5 / 10000 \<and> \<bar>vz v\<bar> < 5 / 10000"

section \<open>Properties of math_functions.py\<close>

lemma furthest_loop_keeps:
  "\<forall>p \<in> set ps. glm_dot p d \<le> bd \<Longrightarrow> furthest_loop ps d bp bd = bp"
  by (induction ps) (auto simp: Let_def)

lemma furthest_loop_first_max:
  assumes "\<exists>p \<in> set ps. glm_dot p d > bd"
  shows "\<exists>i < length ps. furthest_loop ps d bp bd = ps ! i
           \<and> (\<forall>j < length ps. glm_dot (ps ! j) d \<le> glm_dot (ps ! i) d)
           \<and> (\<forall>j < i. glm_dot (ps ! j) d < glm_dot (ps ! i) d)
           \<and> bd < glm_dot (ps ! i) d"
  using assms
proof (induction ps arbitrary: bp bd)
  case Nil
  then show ?case by simp
next
  case (Cons p ps)
  show ?case
  proof (cases "glm_dot p d > bd")
    case True
    note better = True
    show ?thesis
    proof (cases "\<exists>q \<in> set ps. glm_dot q d > glm_dot p d")
      case True
      from Cons.IH [OF True, of p] obtain i where i: "i < length ps"
        "furthest_loop ps d p (glm_dot p d) = ps ! i"
        "\<forall>j < length ps. glm_dot (ps ! j) d \<le> glm_dot (ps ! i) d"
        "\<forall>j < i. glm_dot (ps ! j) d < glm_dot (ps ! i) d"
        "glm_dot p d < glm_dot (ps ! i) d"
        by blast
      have "Suc i < length (p # ps)" using i(1) by simp
      moreover have "furthest_loop (p # ps) d bp bd = (p # ps) ! Suc i"
        using better i(2) by (simp add: Let_def)
      moreover have "\<forall>j < length (p # ps). glm_dot ((p # ps) ! j) d \<le> glm_dot ((p # ps) ! Suc i) d"
        using i(3) i(5) by (auto simp: nth_Cons split: nat.splits)
      moreover have "\<forall>j < Suc i. glm_dot ((p # ps) ! j) d < glm_dot ((p # ps) ! Suc i) d"
        using i(4) i(5) by (auto simp: nth_Cons split: nat.splits)
      moreover have "bd < glm_dot ((p # ps) ! Suc i) d"
        using better i(5) by simp
      ultimately show ?thesis by blast
    next
      case False
      then have le: "\<forall>q \<in> set ps. glm_dot q d \<le> glm_dot p d" by auto
      have "furthest_loop (p # ps) d bp bd = p"
        using better furthest_loop_keeps [OF le] by (simp add: Let_def)
      moreover have "\<forall>j < length (p # ps). glm_dot ((p # ps) ! j) d \<le> glm_dot p d"
        using le by (auto simp: nth_Cons split: nat.splits)
      ultimately show ?thesis using better by (intro exI [of _ 0]) simp
    qed
  next
    case False
    then have "\<exists>q \<in> set ps. glm_dot q d > bd" using Cons.prems by auto
    from Cons.IH [OF this, of bp] obtain i where i: "i < length ps"
      "furthest_loop ps d bp bd = ps ! i"
      "\<forall>j < length ps. glm_dot (ps ! j) d \<le> glm_dot (ps ! i) d"
      "\<forall>j < i. glm_dot (ps ! j) d < glm_dot (ps ! i) d"
      "bd < glm_dot (ps ! i) d"
      by blast
    have "Suc i < length (p # ps)" using i(1) by simp
    moreover have "furthest_loop (p # ps) d bp bd = (p # ps) ! Suc i"
      using False i(2) by (simp add: Let_def)
    moreover have "\<forall>j < length (p # ps). glm_dot ((p # ps) ! j) d \<le> glm_dot ((p # ps) ! Suc i) d"
      using i(3) i(5) False by (auto simp: nth_Cons split: nat.splits)
    moreover have "\<forall>j < Suc i. glm_dot ((p # ps) ! j) d < glm_dot ((p # ps) ! Suc i) d"
      using i(4) i(5) False by (auto simp: nth_Cons split: nat.splits)
    moreover have "bd < glm_dot ((p # ps) ! Suc i) d"
      using i(5) by simp
    ultimately show ?thesis by blast
  qed
qed

text \<open>
  C1. The claim: \<^verbatim>\<open>get_support_point(points1, points2, d)\<close> returns the Minkowski-difference
  support \<^verbatim>\<open>get_furthest_point(points1, d) - get_furthest_point(points2, -d)\<close>. The code
  computes that difference and drops it: at the points \<^verbatim>\<open>[(1,0,0)]\<close>, \<^verbatim>\<open>[(0,0,0)]\<close> and the
  direction \<^verbatim>\<open>(1,0,0)\<close> the difference is \<^verbatim>\<open>(1,0,0)\<close> and the call returns \<^verbatim>\<open>None\<close>.
\<close>

theorem get_support_point_returns_None:
  "get_support_point [Vec3 1 0 0] [Vec3 0 0 0] (Vec3 1 0 0) = None
   \<and> vec_sub (get_furthest_point [Vec3 1 0 0] (Vec3 1 0 0))
        (get_furthest_point [Vec3 0 0 0] (vec_neg (Vec3 1 0 0))) = Vec3 1 0 0"
  by (simp add: get_support_point_def get_furthest_point_def)

text \<open>
  C7. The claim: for every direction and every non-empty point list,
  \<^verbatim>\<open>get_furthest_point\<close> returns an element of the list with the greatest dot product, the
  first such. The sentinel \<^verbatim>\<open>-1e6\<close> breaks it for a list whose dot products are all at most
  \<^verbatim>\<open>-1e6\<close>: for the single point \<^verbatim>\<open>(-2000000, 0, 0)\<close> and the direction \<^verbatim>\<open>(1, 0, 0)\<close> the
  function returns the origin, which is not in the list and whose dot product 0 is not the
  maximum \<^verbatim>\<open>-2000000\<close>.
\<close>

theorem get_furthest_point_sentinel:
  "get_furthest_point [Vec3 (- 2000000) 0 0] (Vec3 1 0 0) = Vec3 0 0 0
   \<and> Vec3 0 0 0 \<notin> set [Vec3 (- 2000000) 0 0]
   \<and> glm_dot (get_furthest_point [Vec3 (- 2000000) 0 0] (Vec3 1 0 0)) (Vec3 1 0 0)
       \<noteq> Max ((\<lambda>p. glm_dot p (Vec3 1 0 0)) ` set [Vec3 (- 2000000) 0 0])"
  by (simp add: get_furthest_point_def)

text \<open>
  Above the sentinel the function is the support oracle: when some point has a dot product
  greater than \<^verbatim>\<open>-1e6\<close>, the result is the first point of the list that attains the maximum.
\<close>

lemma get_furthest_point_above_sentinel:
  assumes "\<exists>p \<in> set P. glm_dot p d > - 1000000"
  shows "\<exists>i < length P. get_furthest_point P d = P ! i
           \<and> (\<forall>j < length P. glm_dot (P ! j) d \<le> glm_dot (P ! i) d)
           \<and> (\<forall>j < i. glm_dot (P ! j) d < glm_dot (P ! i) d)"
  using furthest_loop_first_max [OF assms, of "Vec3 0 0 0"]
  unfolding get_furthest_point_def by blast

section \<open>Properties of physics_body_handler.py\<close>

text \<open>
  C6, as the claim states it: constructing a physics body with a mass that is zero or
  negative fails with an InvalidMass error. The constructors check nothing: a point body of
  mass \<^verbatim>\<open>-1\<close> and a rigid body of mass \<^verbatim>\<open>0\<close> are built, and \<^verbatim>\<open>add_physics_body\<close> appends
  the body of mass \<^verbatim>\<open>0\<close> to the handler's list.
\<close>

theorem constructors_accept_nonpositive_mass:
  "PointPhysicsBody_init (- 1) None = Inr \<lparr>mass = - 1, velocity = Vec3 0 0 0\<rparr>
   \<and> PhysicsBody_init 0 None 0 None =
       Inr \<lparr>mass = 0, velocity = Vec3 0 0 0, rotational_velocity = 0,
            axis_of_rotation = Vec3 1 0 0, rotation = Quat 1 0 0 0\<rparr>
   \<and> add_physics_body [] 0 None 0 None =
       Inr ([\<lparr>mass = 0, velocity = Vec3 0 0 0, rotational_velocity = 0,
              axis_of_rotation = Vec3 1 0 0, rotation = Quat 1 0 0 0\<rparr>],
            \<lparr>mass = 0, velocity = Vec3 0 0 0, rotational_velocity = 0,
             axis_of_rotation = Vec3 1 0 0, rotation = Quat 1 0 0 0\<rparr>)"
  by (simp add: PointPhysicsBody_init_def PhysicsBody_init_def add_physics_body_def)

text \<open>
  C6, amended: for every mass, positive or not, \<^verbatim>\<open>PointPhysicsBody\<close>, \<^verbatim>\<open>PhysicsBody\<close> and
  \<^verbatim>\<open>add_physics_body\<close> succeed and the body they build stores the mass as given; the code
  has no InvalidMass error.
\<close>

theorem constructors_never_fail:
  "(\<exists>b. PointPhysicsBody_init m v = Inr b \<and> mass b = m)
   \<and> (\<exists>b. PhysicsBody_init m v w a = Inr b \<and> mass b = m)
   \<and> (\<exists>b. add_physics_body bs m v w a = Inr (bs @ [b], b) \<and> mass b = m)"
  by (simp add: PointPhysicsBody_init_def PhysicsBody_init_def add_physics_body_def)

section \<open>Properties of the impulse computation\<close>

lemma py_round3_zero: "py_round3 0 = 0"
  by (simp add: py_round3_def py_round_half_even_def Let_def)

lemma py_round3_half: "py_round3 (1 / 2) = 1 / 2"
  by (simp add: py_round3_def py_round_half_even_def Let_def)

lemma py_round3_one: "py_round3 1 = 1"
  by (simp add: py_round3_def py_round_half_even_def Let_def)

lemma py_round3_minus_four_fifths: "py_round3 (- (4 / 5)) = - (4 / 5)"
  by (simp add: py_round3_def py_round_half_even_def Let_def)

text \<open>
  C3. The claim: in \<^verbatim>\<open>calculate_impulse2\<close>, as in \<^verbatim>\<open>calculate_impluse1\<close>, the friction
  impulse is zero exactly when the tangential speed is below \<^verbatim>\<open>1e-6\<close>, and is
  \<^verbatim>\<open>-kinetic * |J| * normalize(v_t)\<close> otherwise. The two-body path compares with \<^verbatim>\<open>1e6\<close>. For
  the normal impulse \<^verbatim>\<open>(0, 0.5, 0)\<close> and the tangential velocity \<^verbatim>\<open>(1, 0, 0)\<close> of speed 1 the
  two-body friction is zero where the one-body rule gives \<^verbatim>\<open>(-0.4, 0, 0)\<close>. So a body of
  velocity \<^verbatim>\<open>(1, -1, 0)\<close> meeting a body at rest along the normal \<^verbatim>\<open>(0, 1, 0)\<close> gets the
  impulse \<^verbatim>\<open>(0, 0.5, 0)\<close> with no friction part, while the one-body path on the same body
  returns \<^verbatim>\<open>(-0.8, 1, 0)\<close>, friction included.
\<close>

theorem calculate_impulse2_friction_threshold:
  "friction_impulse2 (8 / 10) (Vec3 0 (1 / 2) 0) (Vec3 1 0 0) = Vec3 0 0 0
   \<and> friction_impulse1 (8 / 10) (Vec3 0 (1 / 2) 0) (Vec3 1 0 0) = Vec3 (- (2 / 5)) 0 0
   \<and> calculate_impulse2
        \<lparr>mass = 1, velocity = Vec3 1 (- 1) 0, rotational_velocity = 0,
         axis_of_rotation = Vec3 1 0 0, rotation = Quat 1 0 0 0\<rparr>
        \<lparr>mass = 1, velocity = Vec3 0 0 0, rotational_velocity = 0,
         axis_of_rotation = Vec3 1 0 0, rotation = Quat 1 0 0 0\<rparr>
        1 1 (Vec3 0 0 0) (Vec3 0 0 0) (Vec3 0 0 0) (Vec3 0 0 0) mat3_zero mat3_zero
        0 (8 / 10) (8 / 10) (Vec3 0 1 0) = Inr (Vec3 0 (1 / 2) 0)
   \<and> calculate_impluse1
        \<lparr>mass = 1, velocity = Vec3 1 (- 1) 0, rotational_velocity = 0,
         axis_of_rotation = Vec3 1 0 0, rotation = Quat 1 0 0 0\<rparr>
        1 (Vec3 0 0 0) (Vec3 0 0 0) mat3_zero
        0 (8 / 10) (8 / 10) (Vec3 0 1 0) = Inr (Vec3 (- (4 / 5)) 1 0)"
  by (simp add: friction_impulse2_def friction_impulse1_def glm_length_def glm_normalize_def
      calculate_impulse2_def impulse2_unrounded_def calculate_impluse1_def impulse1_unrounded_def
      mat3_zero_def Let_def py_round3_half py_round3_zero py_round3_one
      py_round3_minus_four_fifths real_sqrt_divide)

lemma py_round_half_even_close: "\<bar>of_int (py_round_half_even y) - y\<bar> \<le> 1 / 2"
  unfolding py_round_half_even_def Let_def by (auto; linarith)

lemma py_round_half_even_small:
  assumes "\<bar>y\<bar> < 1 / 2"
  shows "py_round_half_even y = 0"
proof (cases "0 \<le> y")
  case True
  then have "\<lfloor>y\<rfloor> = 0" using assms by (simp add: floor_eq_iff)
  then show ?thesis using assms True by (simp add: py_round_half_even_def Let_def)
next
  case False
  then have "\<lfloor>y\<rfloor> = - 1" using assms by (simp add: floor_eq_iff)
  then show ?thesis using assms False by (simp add: py_round_half_even_def Let_def)
qed

lemma py_round3_grid: "of_int \<lfloor>py_round3 x * 1000\<rfloor> = py_round3 x * 1000"
  by (simp add: py_round3_def)

lemma py_round3_close: "\<bar>py_round3 x - x\<bar> \<le> 1 / 2000"
proof -
  have "\<bar>of_int (py_round_half_even (x * 1000)) - x * 1000\<bar> \<le> 1 / 2"
    by (rule py_round_half_even_close)
  then show ?thesis by (simp add: py_round3_def field_simps abs_le_iff)
qed

lemma py_round3_small: "\<bar>x\<bar> < 5 / 10000 \<Longrightarrow> py_round3 x = 0"
  using py_round_half_even_small [of "x * 1000"] by (simp add: py_round3_def abs_mult)

lemma vec_round3_three_decimals: "three_decimals (vec_round3 v)"
  by (cases v) (simp add: three_decimals_def py_round3_grid)

lemma vec_round3_within: "within_half_milli (vec_round3 v) v"
proof (cases v)
  case (Vec3 a b c)
  show ?thesis
    unfolding Vec3 within_half_milli_def
    using py_round3_close [of a] py_round3_close [of b] py_round3_close [of c] by simp
qed

lemma vec_round3_small: "below_half_milli v \<Longrightarrow> vec_round3 v = Vec3 0 0 0"
  by (cases v) (simp add: below_half_milli_def py_round3_small)

lemma loop2_small:
  assumes "impulse2_unrounded body1 body2 inv_mass1 inv_mass2
             (vec_scale (rotational_velocity body1) (axis_of_rotation body1))
             (vec_scale (rotational_velocity body2) (axis_of_rotation body2))
             (vec_sub contact_point (geometric_center collider1))
             (vec_sub contact_point (geometric_center collider2))
             inv_inertia1 inv_inertia2 e k s normal = Inr raw"
    and "below_half_milli raw"
  shows "collisions_loop2 (contact_point # contact_points) normal collider1 collider2
           inv_mass1 inv_mass2 inv_inertia1 inv_inertia2 e k s num_points body1 body2
         = collisions_loop2 contact_points normal collider1 collider2
             inv_mass1 inv_mass2 inv_inertia1 inv_inertia2 e k s num_points
             (apply_impulse (vec_sub contact_point (geometric_center collider1)) (Vec3 0 0 0)
                inv_inertia1 inv_mass1 body1)
             (apply_impulse (vec_sub contact_point (geometric_center collider2)) (Vec3 0 0 0)
                inv_inertia2 inv_mass2 body2)"
  using assms by (simp add: calculate_impulse2_def vec_round3_small Let_def)

lemma loop_first_small:
  assumes "impulse1_unrounded body1 inv_mass1
             (vec_scale (rotational_velocity body1) (axis_of_rotation body1))
             (vec_sub contact_point (geometric_center collider1))
             inv_inertia1 e k s normal = Inr raw"
    and "below_half_milli raw"
  shows "collisions_loop_first (contact_point # contact_points) normal collider1
           inv_mass1 inv_inertia1 e k s num_points body1
         = collisions_loop_first contact_points normal collider1
             inv_mass1 inv_inertia1 e k s num_points
             (apply_impulse (vec_sub contact_point (geometric_center collider1)) (Vec3 0 0 0)
                inv_inertia1 inv_mass1 body1)"
  using assms by (simp add: calculate_impluse1_def vec_round3_small Let_def)

lemma loop_second_small:
  assumes "impulse1_unrounded body2 inv_mass2
             (vec_scale (rotational_velocity body2) (axis_of_rotation body2))
             (vec_sub contact_point (geometric_center collider2))
             inv_inertia2 e k s normal = Inr raw"
    and "below_half_milli raw"
  shows "collisions_loop_second (contact_point # contact_points) normal collider2
           inv_mass2 inv_inertia2 e k s num_points body2
         = collisions_loop_second contact_points normal collider2
             inv_mass2 inv_inertia2 e k s num_points
             (apply_impulse (vec_sub contact_point (geometric_center collider2)) (Vec3 0 0 0)
                inv_inertia2 inv_mass2 body2)"
  using assms by (simp add: calculate_impluse1_def vec_round3_small Let_def)

text \<open>
  C10. Every impulse that \<^verbatim>\<open>calculate_impluse1\<close> and \<^verbatim>\<open>calculate_impulse2\<close> return is the
  computed impulse (normal plus friction) with each component rounded to three decimals: a
  whole multiple of one thousandth within half a thousandth of the computed component.
  Consequently a computed impulse whose components are all below \<^verbatim>\<open>0.0005\<close> in magnitude is
  returned as the zero vector, and each of the three loops of \<^verbatim>\<open>calculate_collisions\<close> then
  applies the zero impulse for that contact point.
\<close>

theorem impulses_rounded_to_three_decimals:
  "(impulse1_unrounded body inv_mass omega radius inv_inertia e k s normal = Inr raw
      \<longrightarrow> calculate_impluse1 body inv_mass omega radius inv_inertia e k s normal
            = Inr (vec_round3 raw))
   \<and> (impulse2_unrounded body1 body2 inv_mass1 inv_mass2 omega1 omega2 radius1 radius2
         inv_inertia1 inv_inertia2 e k s normal = Inr raw
      \<longrightarrow> calculate_impulse2 body1 body2 inv_mass1 inv_mass2 omega1 omega2 radius1 radius2
            inv_inertia1 inv_inertia2 e k s normal = Inr (vec_round3 raw))
   \<and> three_decimals (vec_round3 raw) \<and> within_half_milli (vec_round3 raw) raw
   \<and> (below_half_milli raw \<longrightarrow> vec_round3 raw = Vec3 0 0 0)
   \<and> (impulse2_unrounded body1 body2 inv_mass1 inv_mass2
         (vec_scale (rotational_velocity body1) (axis_of_rotation body1))
         (vec_scale (rotational_velocity body2) (axis_of_rotation body2))
         (vec_sub contact_point (geometric_center collider1))
         (vec_sub contact_point (geometric_center collider2))
         inv_inertia1 inv_inertia2 e k s normal = Inr raw \<and> below_half_milli raw
      \<longrightarrow> collisions_loop2 (contact_point # contact_points) normal collider1 collider2
             inv_mass1 inv_mass2 inv_inertia1 inv_inertia2 e k s num_points body1 body2
           = collisions_loop2 contact_points normal collider1 collider2
               inv_mass1 inv_mass2 inv_inertia1 inv_inertia2 e k s num_points
               (apply_impulse (vec_sub contact_point (geometric_center collider1)) (Vec3 0 0 0)
                  inv_inertia1 inv_mass1 body1)
               (apply_impulse (vec_sub contact_point (geometric_center collider2)) (Vec3 0 0 0)
                  inv_inertia2 inv_mass2 body2))
   \<and> (impulse1_unrounded body inv_mass
         (vec_scale (rotational_velocity body) (axis_of_rotation body))
         (vec_sub contact_point (geometric_center collider1))
         inv_inertia e k s normal = Inr raw \<and> below_half_milli raw
      \<longrightarrow> collisions_loop_first (contact_point # contact_points) normal collider1
             inv_mass inv_inertia e k s num_points body
           = collisions_loop_first contact_points normal collider1
               inv_mass inv_inertia e k s num_points
               (apply_impulse (vec_sub contact_point (geometric_center collider1)) (Vec3 0 0 0)
                  inv_inertia inv_mass body)
          \<and> collisions_loop_second (contact_point # contact_points) normal collider1
             inv_mass inv_inertia e k s num_points body
           = collisions_loop_second contact_points normal collider1
               inv_mass inv_inertia e k s num_points
               (apply_impulse (vec_sub contact_point (geometric_center collider1)) (Vec3 0 0 0)
                  inv_inertia inv_mass body))"
proof (intro conjI impI)
  show "calculate_impluse1 body inv_mass omega radius inv_inertia e k s normal
          = Inr (vec_round3 raw)"
    if "impulse1_unrounded body inv_mass omega radius inv_inertia e k s normal = Inr raw"
    using that by (simp add: calculate_impluse1_def)
  show "calculate_impulse2 body1 body2 inv_mass1 inv_mass2 omega1 omega2 radius1 radius2
          inv_inertia1 inv_inertia2 e k s normal = Inr (vec_round3 raw)"
    if "impulse2_unrounded body1 body2 inv_mass1 inv_mass2 omega1 omega2 radius1 radius2
          inv_inertia1 inv_inertia2 e k s normal = Inr raw"
    using that by (simp add: calculate_impulse2_def)
  show "three_decimals (vec_round3 raw)"
    by (rule vec_round3_three_decimals)
  show "within_half_milli (vec_round3 raw) raw"
    by (rule vec_round3_within)
  show "vec_round3 raw = Vec3 0 0 0" if "below_half_milli raw"
    using that by (rule vec_round3_small)
qed ((erule conjE, (erule (1) loop2_small | erule (1) loop_first_small
      | erule (1) loop_second_small))+)

theorem impulses_rounded_to_three_decimals_witness:
  "calculate_impluse1
     \<lparr>mass = 1, velocity = Vec3 0 (- (1 / 10000)) 0, rotational_velocity = 0,
      axis_of_rotation = Vec3 1 0 0, rotation = Quat 1 0 0 0\<rparr>
     1 (Vec3 0 0 0) (Vec3 0 0 0) mat3_zero 0 (8 / 10) (8 / 10) (Vec3 0 1 0) = Inr (Vec3 0 0 0)
   \<and> collisions_loop2 [Vec3 0 0 0] (Vec3 0 1 0)
       \<lparr>data = [0, 0, 0, 1, 1, 1, 0, 0, 0], unique_points = [], vertices = [],
        dimensions = Vec3 0 0 0, geometric_center = Vec3 0 0 0, base_volume = 8,
        static = False, elasticity = 0, inertia_tensor = mat3_zero,
        static_friction = 8 / 10, kinetic_friction = 4 / 10\<rparr>
       \<lparr>data = [0, 0, 0, 1, 1, 1, 0, 0, 0], unique_points = [], vertices = [],
        dimensions = Vec3 0 0 0, geometric_center = Vec3 0 0 0, base_volume = 8,
        static = False, elasticity = 0, inertia_tensor = mat3_zero,
        static_friction = 8 / 10, kinetic_friction = 4 / 10\<rparr>
       1 1 mat3_zero mat3_zero 0 (8 / 10) (8 / 10) 1
       \<lparr>mass = 1, velocity = Vec3 0 (- (1 / 10000)) 0, rotational_velocity = 0,
        axis_of_rotation = Vec3 1 0 0, rotation = Quat 1 0 0 0\<rparr>
       \<lparr>mass = 1, velocity = Vec3 0 0 0, rotational_velocity = 0,
        axis_of_rotation = Vec3 1 0 0, rotation = Quat 1 0 0 0\<rparr>
     = Inr (\<lparr>mass = 1, velocity = Vec3 0 (- (1 / 10000)) 0, rotational_velocity = 0,
             axis_of_rotation = Vec3 1 0 0, rotation = Quat 1 0 0 0\<rparr>,
            \<lparr>mass = 1, velocity = Vec3 0 0 0, rotational_velocity = 0,
             axis_of_rotation = Vec3 1 0 0, rotation = Quat 1 0 0 0\<rparr>)"
proof
  let ?moving = "\<lparr>mass = 1, velocity = Vec3 0 (- (1 / 10000)) 0, rotational_velocity = 0,
             axis_of_rotation = Vec3 1 0 0, rotation = Quat 1 0 0 0\<rparr>"
  let ?rest = "\<lparr>mass = 1, velocity = Vec3 0 0 0, rotational_velocity = 0,
              axis_of_rotation = Vec3 1 0 0, rotation = Quat 1 0 0 0\<rparr>"
  let ?cube = "\<lparr>data = [0, 0, 0, 1, 1, 1, 0, 0, 0], unique_points = [], vertices = [],
        dimensions = Vec3 0 0 0, geometric_center = Vec3 0 0 0, base_volume = 8,
        static = False, elasticity = 0, inertia_tensor = mat3_zero,
        static_friction = 8 / 10, kinetic_friction = 4 / 10\<rparr>"
  have raw1: "impulse1_unrounded ?moving 1 (Vec3 0 0 0) (Vec3 0 0 0) mat3_zero 0 (8 / 10) (8 / 10)
                (Vec3 0 1 0) = Inr (Vec3 0 (1 / 10000) 0)"
    by (simp add: impulse1_unrounded_def friction_impulse1_def glm_length_def mat3_zero_def
        Let_def)
  have small1: "below_half_milli (Vec3 0 (1 / 10000) 0)"
    by (simp add: below_half_milli_def)
  from impulses_rounded_to_three_decimals
         [where body = ?moving and inv_mass = 1 and omega = "Vec3 0 0 0" and radius = "Vec3 0 0 0"
            and inv_inertia = mat3_zero and e = 0 and k = "8 / 10" and s = "8 / 10"
            and normal = "Vec3 0 1 0" and raw = "Vec3 0 (1 / 10000) 0"]
       raw1 small1
  show "calculate_impluse1 ?moving 1 (Vec3 0 0 0) (Vec3 0 0 0) mat3_zero 0 (8 / 10) (8 / 10)
          (Vec3 0 1 0) = Inr (Vec3 0 0 0)"
    by (simp del: vec_round3.simps)
  have raw2: "impulse2_unrounded ?moving ?rest 1 1
                (vec_scale (rotational_velocity ?moving) (axis_of_rotation ?moving))
                (vec_scale (rotational_velocity ?rest) (axis_of_rotation ?rest))
                (vec_sub (Vec3 0 0 0) (geometric_center ?cube))
                (vec_sub (Vec3 0 0 0) (geometric_center ?cube))
                mat3_zero mat3_zero 0 (8 / 10) (8 / 10) (Vec3 0 1 0)
              = Inr (Vec3 0 (1 / 20000) 0)"
    by (simp add: impulse2_unrounded_def friction_impulse2_def glm_length_def mat3_zero_def
        Let_def)
  have small2: "below_half_milli (Vec3 0 (1 / 20000) 0)"
    by (simp add: below_half_milli_def)
  have "collisions_loop2 [Vec3 0 0 0] (Vec3 0 1 0) ?cube ?cube 1 1 mat3_zero mat3_zero 0 (8 / 10)
          (8 / 10) 1 ?moving ?rest
        = collisions_loop2 [] (Vec3 0 1 0) ?cube ?cube 1 1 mat3_zero mat3_zero 0 (8 / 10) (8 / 10) 1
            (apply_impulse (vec_sub (Vec3 0 0 0) (geometric_center ?cube)) (Vec3 0 0 0)
               mat3_zero 1 ?moving)
            (apply_impulse (vec_sub (Vec3 0 0 0) (geometric_center ?cube)) (Vec3 0 0 0)
               mat3_zero 1 ?rest)"
    using impulses_rounded_to_three_decimals
         [where ?body1.0 = ?moving and ?body2.0 = ?rest and ?inv_mass1.0 = 1 and ?inv_mass2.0 = 1
            and ?inv_inertia1.0 = mat3_zero and ?inv_inertia2.0 = mat3_zero
            and e = 0 and k = "8 / 10" and s = "8 / 10" and ?collider1.0 = ?cube
            and ?collider2.0 = ?cube and contact_point = "Vec3 0 0 0" and contact_points = "[]"
            and num_points = 1
            and normal = "Vec3 0 1 0" and raw = "Vec3 0 (1 / 20000) 0"]
       raw2 small2
    by blast
  then show "collisions_loop2 [Vec3 0 0 0] (Vec3 0 1 0) ?cube ?cube 1 1 mat3_zero mat3_zero 0 (8 / 10)
          (8 / 10) 1 ?moving ?rest = Inr (?moving, ?rest)"
    by (simp add: apply_impulse_def glm_length_def mat3_zero_def Let_def)
qed

section \<open>Properties of narrow_collisions.py\<close>

text \<open>
  C5, as the claim states it: for a nearest face whose total signed volume is below epsilon,
  \<^verbatim>\<open>calculate_contact_point\<close> returns the mean of the three body-1 support points. For the
  degenerate face \<^verbatim>\<open>a = b = c = (1, 0, 0)\<close> the total volume is 0, below every positive
  epsilon; the mean of the body-1 support points is \<^verbatim>\<open>(1, 0, 0)\<close>, and the code returns the
  origin.
\<close>

theorem contact_point_zero_volume_counterexample:
  "signed_volume (Vec3 1 0 0) (Vec3 1 0 0) (Vec3 1 0 0) (Vec3 1 0 0) = 0
   \<and> calculate_contact_point [Vec3 1 0 0] [Vec3 0 0 0] [Vec3 1 0 0] [0, 0, 0] (Vec3 1 0 0)
       = Inr (Vec3 0 0 0)
   \<and> spec_face_mean_on_body1 [Vec3 1 0 0] (Vec3 1 0 0) (Vec3 1 0 0) (Vec3 1 0 0) = Vec3 1 0 0
   \<and> calculate_contact_point [Vec3 1 0 0] [Vec3 0 0 0] [Vec3 1 0 0] [0, 0, 0] (Vec3 1 0 0)
       \<noteq> Inr (spec_face_mean_on_body1 [Vec3 1 0 0] (Vec3 1 0 0) (Vec3 1 0 0) (Vec3 1 0 0))"
  by (simp add: signed_volume_def calculate_contact_point_def py_index_def
      contact_point_of_face_def spec_face_mean_on_body1_def get_furthest_point_def)

text \<open>
  C5, amended: for every nearest face whose total signed volume against the normal is
  exactly zero, \<^verbatim>\<open>calculate_contact_point\<close> returns the zero vector.
\<close>

theorem calculate_contact_point_zero_volume:
  assumes "py_index face 0 = Inr i0" and "py_index polytope i0 = Inr a"
    and "py_index face 1 = Inr i1" and "py_index polytope i1 = Inr b"
    and "py_index face 2 = Inr i2" and "py_index polytope i2 = Inr c"
    and "signed_volume normal a b c = 0"
  shows "calculate_contact_point points1 points2 polytope face normal = Inr (Vec3 0 0 0)"
  using assms by (simp add: calculate_contact_point_def contact_point_of_face_def)

theorem calculate_contact_point_zero_volume_witness:
  "calculate_contact_point [Vec3 1 0 0] [Vec3 0 0 0] [Vec3 1 0 0] [0, 0, 0] (Vec3 1 0 0)
     = Inr (Vec3 0 0 0)"
  by (rule calculate_contact_point_zero_volume [where ?i0.0 = 0 and ?i1.0 = 0 and ?i2.0 = 0
        and a = "Vec3 1 0 0" and b = "Vec3 1 0 0" and c = "Vec3 1 0 0"])
     (simp_all add: py_index_def signed_volume_def)

section \<open>Properties of the rotational state\<close>

lemma glm_dot_scale: "glm_dot (vec_scale s v) (vec_scale s v) = s * s * glm_dot v v"
  by (cases v) (simp add: algebra_simps)

lemma glm_dot_self_nonneg: "0 \<le> glm_dot v v"
  by (cases v) simp

lemma glm_length_normalize:
  assumes "glm_length v \<noteq> 0"
  shows "glm_length (glm_normalize v) = 1"
proof -
  have pos: "0 < glm_dot v v"
    using assms glm_dot_self_nonneg [of v] by (auto simp: glm_length_def less_le)
  have "glm_dot (glm_normalize v) (glm_normalize v)
          = (1 / sqrt (glm_dot v v)) * (1 / sqrt (glm_dot v v)) * glm_dot v v"
    by (simp add: glm_normalize_def glm_dot_scale)
  also have "\<dots> = 1"
    using pos by (simp add: field_simps)
  finally show ?thesis by (simp add: glm_length_def)
qed

text \<open>
  C8, as the claim states it: \<^verbatim>\<open>PhysicsBody\<close> construction and \<^verbatim>\<open>apply_impulse\<close> both keep the
  axis of rotation unit-length or the rotational velocity zero. The constructor stores the
  axis it is given: \<^verbatim>\<open>PhysicsBody(1, None, 5, glm.vec3(2, 0, 0))\<close> has an axis of length 2 and
  the rotational velocity 5.
\<close>

theorem construction_breaks_rotation_invariant:
  "PhysicsBody_init 1 None 5 (Some (Vec3 2 0 0)) =
     Inr \<lparr>mass = 1, velocity = Vec3 0 0 0, rotational_velocity = 5,
          axis_of_rotation = Vec3 2 0 0, rotation = Quat 1 0 0 0\<rparr>
   \<and> \<not> rotation_invariant
         \<lparr>mass = 1, velocity = Vec3 0 0 0, rotational_velocity = 5,
          axis_of_rotation = Vec3 2 0 0, rotation = Quat 1 0 0 0\<rparr>"
  by (simp add: PhysicsBody_init_def PointPhysicsBody_init_def rotation_invariant_def
      glm_length_def)

text \<open>
  C8, amended: \<^verbatim>\<open>apply_impulse\<close> leaves every body with a unit-length axis of rotation or a
  zero rotational velocity, whatever the body was before; \<^verbatim>\<open>PhysicsBody\<close> construction stores
  the axis as given (\<^verbatim>\<open>(1, 0, 0)\<close> when omitted), so the constructed body has a unit-length axis
  or a zero rotational velocity exactly when the arguments have.
\<close>

theorem apply_impulse_rotation_invariant:
  "rotation_invariant (apply_impulse radius impulse_signed inv_inertia inv_mass body)
   \<and> (case PhysicsBody_init m v w axis of
         Inl e \<Rightarrow> False
       | Inr b \<Rightarrow> rotation_invariant b
                  = (glm_length (case axis of Some a \<Rightarrow> a | None \<Rightarrow> Vec3 1 0 0) = 1 \<or> w = 0))"
proof
  show "rotation_invariant (apply_impulse radius impulse_signed inv_inertia inv_mass body)"
    by (auto simp: apply_impulse_def Let_def rotation_invariant_def glm_length_normalize)
  show "case PhysicsBody_init m v w axis of
         Inl e \<Rightarrow> False
       | Inr b \<Rightarrow> rotation_invariant b
                  = (glm_length (case axis of Some a \<Rightarrow> a | None \<Rightarrow> Vec3 1 0 0) = 1 \<or> w = 0)"
    by (simp add: PhysicsBody_init_def PointPhysicsBody_init_def rotation_invariant_def)
qed

section \<open>Properties of joints.py\<close>

text \<open>
  C2, as the claim states it: with the anchor at least \<^verbatim>\<open>1e-7\<close> from the child,
  \<^verbatim>\<open>Joint.restrict\<close> snaps only when neither collection has a physics body and applies the
  spring force otherwise. The spring branch is behind \<^verbatim>\<open>if False and (...)\<close>: for a child at
  the origin with a physics body of mass 1 at rest, a parent at the origin without one, the
  parent offset \<^verbatim>\<open>(1, 0, 0)\<close>, spring constant 1 and a time step of one half, the code moves
  the child to the anchor \<^verbatim>\<open>(1, 0, 0)\<close> and leaves its velocity zero, where the spring update
  gives the velocity \<^verbatim>\<open>(0.5, 0, 0)\<close> and the position \<^verbatim>\<open>(0.25, 0, 0)\<close>.
\<close>

theorem restrict_snaps_with_physics_counterexample:
  "restrict
     \<lparr>parent_offset = Vec3 1 0 0, original_parent_offset = Vec4 0 1 0 0, child_offset = 0,
      spring_constant = 1, min_radius = 0, max_radius = 1\<rparr>
     \<lparr>position = Vec3 0 0 0, physics_body = None\<rparr>
     \<lparr>position = Vec3 0 0 0,
      physics_body = Some \<lparr>mass = 1, velocity = Vec3 0 0 0, rotational_velocity = 0,
                           axis_of_rotation = Vec3 1 0 0, rotation = Quat 1 0 0 0\<rparr>\<rparr>
     (1 / 2)
   = Inr (\<lparr>position = Vec3 0 0 0, physics_body = None\<rparr>,
          \<lparr>position = Vec3 1 0 0,
           physics_body = Some \<lparr>mass = 1, velocity = Vec3 0 0 0, rotational_velocity = 0,
                                axis_of_rotation = Vec3 1 0 0, rotation = Quat 1 0 0 0\<rparr>\<rparr>)
   \<and> spec_restrict
     \<lparr>parent_offset = Vec3 1 0 0, original_parent_offset = Vec4 0 1 0 0, child_offset = 0,
      spring_constant = 1, min_radius = 0, max_radius = 1\<rparr>
     \<lparr>position = Vec3 0 0 0, physics_body = None\<rparr>
     \<lparr>position = Vec3 0 0 0,
      physics_body = Some \<lparr>mass = 1, velocity = Vec3 0 0 0, rotational_velocity = 0,
                           axis_of_rotation = Vec3 1 0 0, rotation = Quat 1 0 0 0\<rparr>\<rparr>
     (1 / 2)
   = Inr (\<lparr>position = Vec3 0 0 0, physics_body = None\<rparr>,
          \<lparr>position = Vec3 (1 / 4) 0 0,
           physics_body = Some \<lparr>mass = 1, velocity = Vec3 (1 / 2) 0 0, rotational_velocity = 0,
                                axis_of_rotation = Vec3 1 0 0, rotation = Quat 1 0 0 0\<rparr>\<rparr>)"
  by (simp add: restrict_def spec_restrict_def spring_step_def Let_def glm_length_def
      glm_normalize_def)

text \<open>
  C2, amended: with the anchor \<^verbatim>\<open>parent.position + parent_offset\<close> at least \<^verbatim>\<open>1e-7\<close> from
  \<^verbatim>\<open>child.position\<close>, \<^verbatim>\<open>Joint.restrict\<close> snaps \<^verbatim>\<open>child.position\<close> to the anchor whether or not
  parent or child has a physics body, and changes nothing else: no force is applied and no
  velocity is updated.
\<close>

theorem restrict_always_snaps:
  assumes "1 / 10000000
             \<le> glm_length (vec_sub (vec_add (position parent) (parent_offset self)) (position child))"
  shows "restrict self parent child delta_time =
           Inr (parent, child\<lparr>position := vec_add (position parent) (parent_offset self)\<rparr>)"
  using assms by (simp add: restrict_def Let_def)

theorem restrict_always_snaps_witness:
  "restrict
     \<lparr>parent_offset = Vec3 1 0 0, original_parent_offset = Vec4 0 1 0 0, child_offset = 0,
      spring_constant = 1, min_radius = 0, max_radius = 1\<rparr>
     \<lparr>position = Vec3 0 0 0,
      physics_body = Some \<lparr>mass = 2, velocity = Vec3 0 1 0, rotational_velocity = 0,
                           axis_of_rotation = Vec3 1 0 0, rotation = Quat 1 0 0 0\<rparr>\<rparr>
     \<lparr>position = Vec3 0 0 0,
      physics_body = Some \<lparr>mass = 1, velocity = Vec3 0 0 0, rotational_velocity = 0,
                           axis_of_rotation = Vec3 1 0 0, rotation = Quat 1 0 0 0\<rparr>\<rparr>
     (1 / 2)
   = Inr (\<lparr>position = Vec3 0 0 0,
           physics_body = Some \<lparr>mass = 2, velocity = Vec3 0 1 0, rotational_velocity = 0,
                                axis_of_rotation = Vec3 1 0 0, rotation = Quat 1 0 0 0\<rparr>\<rparr>,
          \<lparr>position = Vec3 1 0 0,
           physics_body = Some \<lparr>mass = 1, velocity = Vec3 0 0 0, rotational_velocity = 0,
                                axis_of_rotation = Vec3 1 0 0, rotation = Quat 1 0 0 0\<rparr>\<rparr>)"
proof -
  let ?joint = "\<lparr>parent_offset = Vec3 1 0 0, original_parent_offset = Vec4 0 1 0 0,
                 child_offset = 0, spring_constant = 1, min_radius = 0, max_radius = 1\<rparr>"
  let ?parent = "\<lparr>position = Vec3 0 0 0,
      physics_body = Some \<lparr>mass = 2, velocity = Vec3 0 1 0, rotational_velocity = 0,
                           axis_of_rotation = Vec3 1 0 0, rotation = Quat 1 0 0 0\<rparr>\<rparr>"
  let ?child = "\<lparr>position = Vec3 0 0 0,
      physics_body = Some \<lparr>mass = 1, velocity = Vec3 0 0 0, rotational_velocity = 0,
                           axis_of_rotation = Vec3 1 0 0, rotation = Quat 1 0 0 0\<rparr>\<rparr>"
  have far: "1 / 10000000
      \<le> glm_length (vec_sub (vec_add (position ?parent) (parent_offset ?joint)) (position ?child))"
    by (simp add: glm_length_def)
  from restrict_always_snaps [OF far, of "1 / 2"] show ?thesis by simp
qed

section \<open>Properties of collider_handler.py\<close>

text \<open>
  What \<^verbatim>\<open>set_data\<close> does keep fresh: the data, the world vertices and the geometric center.
  What it leaves alone: the inertia tensor, unless both the scale entries and the rotation
  entries changed.
\<close>

lemma set_data_refreshes_vertices:
  assumes "set_data c d = Inr c'"
  shows "data c' = d \<and> get_real_vertex_locations c' = Inr (vertices c')
         \<and> geometric_center c' = get_geometric_center c'"
  using assms
  by (auto simp: set_data_def Let_def get_real_vertex_locations_def get_model_matrix_def
      get_geometric_center_def split: sum.splits if_splits option.splits)

lemma set_data_keeps_inertia:
  assumes "set_data c d = Inr c'"
    and "take 3 (drop 3 (data c)) = take 3 (drop 3 d) \<or> drop 6 (data c) = drop 6 d"
  shows "inertia_tensor c' = inertia_tensor c"
  using assms by (auto simp: set_data_def Let_def split: sum.splits if_splits option.splits)

lemma fresh_inertia_initial:
  "get_inertia_tensor
     \<lparr>data = [0, 0, 0, 1, 1, 1, 0, 0, 0], unique_points = [Vec3 1 0 0, Vec3 (- 1) 0 0],
      vertices = [Vec3 1 0 0, Vec3 (- 1) 0 0], dimensions = Vec3 2 0 0,
      geometric_center = Vec3 0 0 0, base_volume = 8, static = True, elasticity = 2 / 10,
      inertia_tensor = Mat3 (Vec3 0 0 0) (Vec3 0 1 0) (Vec3 0 0 1),
      static_friction = 8 / 10, kinetic_friction = 4 / 10\<rparr> 1
   = Some (Mat3 (Vec3 0 0 0) (Vec3 0 1 0) (Vec3 0 0 1))"
  by (simp add: get_inertia_tensor_def mat3_zero_def)

lemma set_data_scale_only:
  "set_data
     \<lparr>data = [0, 0, 0, 1, 1, 1, 0, 0, 0], unique_points = [Vec3 1 0 0, Vec3 (- 1) 0 0],
      vertices = [Vec3 1 0 0, Vec3 (- 1) 0 0], dimensions = Vec3 2 0 0,
      geometric_center = Vec3 0 0 0, base_volume = 8, static = True, elasticity = 2 / 10,
      inertia_tensor = Mat3 (Vec3 0 0 0) (Vec3 0 1 0) (Vec3 0 0 1),
      static_friction = 8 / 10, kinetic_friction = 4 / 10\<rparr>
     [0, 0, 0, 2, 2, 2, 0, 0, 0]
   = Inr \<lparr>data = [0, 0, 0, 2, 2, 2, 0, 0, 0], unique_points = [Vec3 1 0 0, Vec3 (- 1) 0 0],
      vertices = [Vec3 2 0 0, Vec3 (- 2) 0 0], dimensions = Vec3 4 0 0,
      geometric_center = Vec3 0 0 0, base_volume = 8, static = True, elasticity = 2 / 10,
      inertia_tensor = Mat3 (Vec3 0 0 0) (Vec3 0 1 0) (Vec3 0 0 1),
      static_friction = 8 / 10, kinetic_friction = 4 / 10\<rparr>"
  by (simp add: set_data_def get_real_vertex_locations_def get_model_matrix_def Let_def
      glm_normalize_def
      mat4_identity_def get_geometric_center_def get_dimensions_def)

lemma fresh_inertia_scaled:
  "get_inertia_tensor
     \<lparr>data = [0, 0, 0, 2, 2, 2, 0, 0, 0], unique_points = [Vec3 1 0 0, Vec3 (- 1) 0 0],
      vertices = [Vec3 2 0 0, Vec3 (- 2) 0 0], dimensions = Vec3 4 0 0,
      geometric_center = Vec3 0 0 0, base_volume = 8, static = True, elasticity = 2 / 10,
      inertia_tensor = Mat3 (Vec3 0 0 0) (Vec3 0 1 0) (Vec3 0 0 1),
      static_friction = 8 / 10, kinetic_friction = 4 / 10\<rparr> 1
   = Some (Mat3 (Vec3 0 0 0) (Vec3 0 4 0) (Vec3 0 0 4))"
  by (simp add: get_inertia_tensor_def mat3_zero_def)

lemma set_data_rotation_only:
  "set_data
     \<lparr>data = [0, 0, 0, 1, 1, 1, 0, 0, 0], unique_points = [Vec3 1 0 0, Vec3 (- 1) 0 0],
      vertices = [Vec3 1 0 0, Vec3 (- 1) 0 0], dimensions = Vec3 2 0 0,
      geometric_center = Vec3 0 0 0, base_volume = 8, static = True, elasticity = 2 / 10,
      inertia_tensor = Mat3 (Vec3 0 0 0) (Vec3 0 1 0) (Vec3 0 0 1),
      static_friction = 8 / 10, kinetic_friction = 4 / 10\<rparr>
     [0, 0, 0, 1, 1, 1, 0, 0, pi / 2]
   = Inr \<lparr>data = [0, 0, 0, 1, 1, 1, 0, 0, pi / 2], unique_points = [Vec3 1 0 0, Vec3 (- 1) 0 0],
      vertices = [Vec3 0 (- 1) 0, Vec3 0 1 0], dimensions = Vec3 2 0 0,
      geometric_center = Vec3 0 0 0, base_volume = 8, static = True, elasticity = 2 / 10,
      inertia_tensor = Mat3 (Vec3 0 0 0) (Vec3 0 1 0) (Vec3 0 0 1),
      static_friction = 8 / 10, kinetic_friction = 4 / 10\<rparr>"
  by (simp add: set_data_def get_real_vertex_locations_def get_model_matrix_def Let_def
      glm_normalize_def mat4_identity_def get_geometric_center_def)

lemma fresh_inertia_rotated:
  "get_inertia_tensor
     \<lparr>data = [0, 0, 0, 1, 1, 1, 0, 0, pi / 2], unique_points = [Vec3 1 0 0, Vec3 (- 1) 0 0],
      vertices = [Vec3 0 (- 1) 0, Vec3 0 1 0], dimensions = Vec3 2 0 0,
      geometric_center = Vec3 0 0 0, base_volume = 8, static = True, elasticity = 2 / 10,
      inertia_tensor = Mat3 (Vec3 0 0 0) (Vec3 0 1 0) (Vec3 0 0 1),
      static_friction = 8 / 10, kinetic_friction = 4 / 10\<rparr> 1
   = Some (Mat3 (Vec3 1 0 0) (Vec3 0 0 0) (Vec3 0 0 1))"
  by (simp add: get_inertia_tensor_def mat3_zero_def)

text \<open>
  C4. The claim: after every \<^verbatim>\<open>set_data\<close> the cached state agrees with the new transform;
  in particular the stored inertia tensor is recomputed whenever the scale entries or the
  rotation entries changed. The test on the rotation entries is nested inside the test on
  the scale entries, so the tensor is recomputed only when both changed. Take the collider
  with the prefab points \<^verbatim>\<open>(1,0,0)\<close> and \<^verbatim>\<open>(-1,0,0)\<close>, the data
  \<^verbatim>\<open>[0,0,0, 1,1,1, 0,0,0]\<close> and the tensor \<^verbatim>\<open>diag(0,1,1)\<close> that \<^verbatim>\<open>get_inertia_tensor\<close> computes
  for it. After \<^verbatim>\<open>set_data([0,0,0, 2,2,2, 0,0,0])\<close> (scale only) the vertices are
  \<^verbatim>\<open>(2,0,0)\<close> and \<^verbatim>\<open>(-2,0,0)\<close>, the stored tensor is still \<^verbatim>\<open>diag(0,1,1)\<close> and a fresh
  computation gives \<^verbatim>\<open>diag(0,4,4)\<close>. After \<^verbatim>\<open>set_data([0,0,0, 1,1,1, 0,0,pi/2])\<close> (rotation
  only) the vertices are \<^verbatim>\<open>(0,-1,0)\<close> and \<^verbatim>\<open>(0,1,0)\<close>, the stored tensor is still
  \<^verbatim>\<open>diag(0,1,1)\<close> and a fresh computation gives \<^verbatim>\<open>diag(1,0,1)\<close>.
\<close>

theorem set_data_leaves_inertia_tensor_stale:
  "get_inertia_tensor
     \<lparr>data = [0, 0, 0, 1, 1, 1, 0, 0, 0], unique_points = [Vec3 1 0 0, Vec3 (- 1) 0 0],
      vertices = [Vec3 1 0 0, Vec3 (- 1) 0 0], dimensions = Vec3 2 0 0,
      geometric_center = Vec3 0 0 0, base_volume = 8, static = True, elasticity = 2 / 10,
      inertia_tensor = Mat3 (Vec3 0 0 0) (Vec3 0 1 0) (Vec3 0 0 1),
      static_friction = 8 / 10, kinetic_friction = 4 / 10\<rparr> 1
   = Some (Mat3 (Vec3 0 0 0) (Vec3 0 1 0) (Vec3 0 0 1))
   \<and> set_data
     \<lparr>data = [0, 0, 0, 1, 1, 1, 0, 0, 0], unique_points = [Vec3 1 0 0, Vec3 (- 1) 0 0],
      vertices = [Vec3 1 0 0, Vec3 (- 1) 0 0], dimensions = Vec3 2 0 0,
      geometric_center = Vec3 0 0 0, base_volume = 8, static = True, elasticity = 2 / 10,
      inertia_tensor = Mat3 (Vec3 0 0 0) (Vec3 0 1 0) (Vec3 0 0 1),
      static_friction = 8 / 10, kinetic_friction = 4 / 10\<rparr>
     [0, 0, 0, 2, 2, 2, 0, 0, 0]
   = Inr \<lparr>data = [0, 0, 0, 2, 2, 2, 0, 0, 0], unique_points = [Vec3 1 0 0, Vec3 (- 1) 0 0],
      vertices = [Vec3 2 0 0, Vec3 (- 2) 0 0], dimensions = Vec3 4 0 0,
      geometric_center = Vec3 0 0 0, base_volume = 8, static = True, elasticity = 2 / 10,
      inertia_tensor = Mat3 (Vec3 0 0 0) (Vec3 0 1 0) (Vec3 0 0 1),
      static_friction = 8 / 10, kinetic_friction = 4 / 10\<rparr>
   \<and> get_inertia_tensor
     \<lparr>data = [0, 0, 0, 2, 2, 2, 0, 0, 0], unique_points = [Vec3 1 0 0, Vec3 (- 1) 0 0],
      vertices = [Vec3 2 0 0, Vec3 (- 2) 0 0], dimensions = Vec3 4 0 0,
      geometric_center = Vec3 0 0 0, base_volume = 8, static = True, elasticity = 2 / 10,
      inertia_tensor = Mat3 (Vec3 0 0 0) (Vec3 0 1 0) (Vec3 0 0 1),
      static_friction = 8 / 10, kinetic_friction = 4 / 10\<rparr> 1
   = Some (Mat3 (Vec3 0 0 0) (Vec3 0 4 0) (Vec3 0 0 4))
   \<and> set_data
     \<lparr>data = [0, 0, 0, 1, 1, 1, 0, 0, 0], unique_points = [Vec3 1 0 0, Vec3 (- 1) 0 0],
      vertices = [Vec3 1 0 0, Vec3 (- 1) 0 0], dimensions = Vec3 2 0 0,
      geometric_center = Vec3 0 0 0, base_volume = 8, static = True, elasticity = 2 / 10,
      inertia_tensor = Mat3 (Vec3 0 0 0) (Vec3 0 1 0) (Vec3 0 0 1),
      static_friction = 8 / 10, kinetic_friction = 4 / 10\<rparr>
     [0, 0, 0, 1, 1, 1, 0, 0, pi / 2]
   = Inr \<lparr>data = [0, 0, 0, 1, 1, 1, 0, 0, pi / 2], unique_points = [Vec3 1 0 0, Vec3 (- 1) 0 0],
      vertices = [Vec3 0 (- 1) 0, Vec3 0 1 0], dimensions = Vec3 2 0 0,
      geometric_center = Vec3 0 0 0, base_volume = 8, static = True, elasticity = 2 / 10,
      inertia_tensor = Mat3 (Vec3 0 0 0) (Vec3 0 1 0) (Vec3 0 0 1),
      static_friction = 8 / 10, kinetic_friction = 4 / 10\<rparr>
   \<and> get_inertia_tensor
     \<lparr>data = [0, 0, 0, 1, 1, 1, 0, 0, pi / 2], unique_points = [Vec3 1 0 0, Vec3 (- 1) 0 0],
      vertices = [Vec3 0 (- 1) 0, Vec3 0 1 0], dimensions = Vec3 2 0 0,
      geometric_center = Vec3 0 0 0, base_volume = 8, static = True, elasticity = 2 / 10,
      inertia_tensor = Mat3 (Vec3 0 0 0) (Vec3 0 1 0) (Vec3 0 0 1),
      static_friction = 8 / 10, kinetic_friction = 4 / 10\<rparr> 1
   = Some (Mat3 (Vec3 1 0 0) (Vec3 0 0 0) (Vec3 0 0 1))"
  by (intro conjI fresh_inertia_initial set_data_scale_only fresh_inertia_scaled
      set_data_rotation_only fresh_inertia_rotated)

section \<open>Properties of calculate_collisions\<close>

lemma apply_impulse_velocity:
  "velocity (apply_impulse radius impulse_signed inv_inertia inv_mass body)
     = vec_add (velocity body) (vec_scale inv_mass impulse_signed)
   \<and> mass (apply_impulse radius impulse_signed inv_inertia inv_mass body) = mass body"
  by (simp add: apply_impulse_def Let_def)

lemma vec_add_zero: "vec_add v (Vec3 0 0 0) = v"
  by (cases v) simp

lemma vec_add_assoc: "vec_add (vec_add u v) w = vec_add u (vec_add v w)"
  by (cases u; cases v; cases w) simp

lemma vec_scale_add: "vec_scale s (vec_add u v) = vec_add (vec_scale s u) (vec_scale s v)"
  by (cases u; cases v) (simp add: algebra_simps)

lemma vec_neg_add: "vec_neg (vec_add u v) = vec_add (vec_neg u) (vec_neg v)"
  by (cases u; cases v) simp

lemma collisions_loop2_impulse:
  assumes "collisions_loop2 cps normal c1 c2 im1 im2 ii1 ii2 e k s np b1 b2 = Inr (b1', b2')"
  shows "\<exists>J. velocity b1' = vec_add (velocity b1) (vec_scale im1 J)
            \<and> velocity b2' = vec_add (velocity b2) (vec_scale im2 (vec_neg J))
            \<and> mass b1' = mass b1 \<and> mass b2' = mass b2"
  using assms
proof (induction cps arbitrary: b1 b2)
  case Nil
  then show ?case by (auto intro!: exI [of _ "Vec3 0 0 0"] simp: vec_add_zero)
next
  case (Cons cp cps)
  let ?r1 = "vec_sub cp (geometric_center c1)"
  let ?r2 = "vec_sub cp (geometric_center c2)"
  from Cons.prems obtain computed where
    rest: "collisions_loop2 cps normal c1 c2 im1 im2 ii1 ii2 e k s np
             (apply_impulse ?r1 (vec_div computed np) ii1 im1 b1)
             (apply_impulse ?r2 (vec_neg (vec_div computed np)) ii2 im2 b2) = Inr (b1', b2')"
    by (auto simp: Let_def split: sum.splits)
  from Cons.IH [OF rest] obtain J where
    J: "velocity b1' = vec_add (velocity (apply_impulse ?r1 (vec_div computed np) ii1 im1 b1))
                         (vec_scale im1 J)"
       "velocity b2' = vec_add (velocity (apply_impulse ?r2 (vec_neg (vec_div computed np)) ii2 im2 b2))
                         (vec_scale im2 (vec_neg J))"
       "mass b1' = mass (apply_impulse ?r1 (vec_div computed np) ii1 im1 b1)"
       "mass b2' = mass (apply_impulse ?r2 (vec_neg (vec_div computed np)) ii2 im2 b2)"
    by blast
  show ?case
    using J
    by (intro exI [of _ "vec_add (vec_div computed np) J"])
       (simp add: apply_impulse_velocity vec_add_assoc vec_scale_add vec_neg_add)
qed

lemma momentum_cancels:
  assumes "m1 \<noteq> 0" and "m2 \<noteq> 0"
    and "v1' = vec_add v1 (vec_scale (1 / m1) J)"
    and "v2' = vec_add v2 (vec_scale (1 / m2) (vec_neg J))"
  shows "vec_add (vec_scale m1 (vec_sub v1' v1)) (vec_scale m2 (vec_sub v2' v2)) = Vec3 0 0 0"
  using assms by (cases v1; cases v2; cases J) simp

text \<open>
  C9, as the claim states it: every collision that \<^verbatim>\<open>calculate_collisions\<close> resolves between
  two bodies that both have physics and equal mass, with a zero friction impulse, conserves
  the linear momentum. Take two colliders with the two vertices \<^verbatim>\<open>(1,0,0)\<close> and \<^verbatim>\<open>(-1,0,0)\<close>:
  their inertia tensor \<^verbatim>\<open>diag(0,1,1)\<close> is singular, \<^verbatim>\<open>glm.inverse\<close> divides by zero, and for
  two bodies of mass 1 that approach each other along the normal \<^verbatim>\<open>(1,0,0)\<close> (no tangential
  velocity, so no friction) the call leaves bodies whose velocities are no numbers: no
  momentum is conserved.
\<close>

theorem singular_inertia_counterexample:
  "get_inertia_tensor \<lparr>data = [0, 0, 0, 1, 1, 1, 0, 0, 0], unique_points = [Vec3 1 0 0, Vec3 (- 1) 0 0],
        vertices = [Vec3 1 0 0, Vec3 (- 1) 0 0], dimensions = Vec3 2 0 0,
        geometric_center = Vec3 0 0 0, base_volume = 8, static = False, elasticity = 1,
        inertia_tensor = Mat3 (Vec3 0 0 0) (Vec3 0 1 0) (Vec3 0 0 1),
        static_friction = 8 / 10, kinetic_friction = 4 / 10\<rparr> 1 = Some (Mat3 (Vec3 0 0 0) (Vec3 0 1 0) (Vec3 0 0 1))
   \<and> glm_inverse (Mat3 (Vec3 0 0 0) (Vec3 0 1 0) (Vec3 0 0 1)) = None
   \<and> calculate_collisions (Vec3 1 0 0)
       \<lparr>data = [0, 0, 0, 1, 1, 1, 0, 0, 0], unique_points = [Vec3 1 0 0, Vec3 (- 1) 0 0],
        vertices = [Vec3 1 0 0, Vec3 (- 1) 0 0], dimensions = Vec3 2 0 0,
        geometric_center = Vec3 0 0 0, base_volume = 8, static = False, elasticity = 1,
        inertia_tensor = Mat3 (Vec3 0 0 0) (Vec3 0 1 0) (Vec3 0 0 1),
        static_friction = 8 / 10, kinetic_friction = 4 / 10\<rparr>
       \<lparr>data = [0, 0, 0, 1, 1, 1, 0, 0, 0], unique_points = [Vec3 1 0 0, Vec3 (- 1) 0 0],
        vertices = [Vec3 1 0 0, Vec3 (- 1) 0 0], dimensions = Vec3 2 0 0,
        geometric_center = Vec3 0 0 0, base_volume = 8, static = False, elasticity = 1,
        inertia_tensor = Mat3 (Vec3 0 0 0) (Vec3 0 1 0) (Vec3 0 0 1),
        static_friction = 8 / 10, kinetic_friction = 4 / 10\<rparr>
       (Some \<lparr>mass = 1, velocity = Vec3 1 0 0, rotational_velocity = 0,
              axis_of_rotation = Vec3 1 0 0, rotation = Quat 1 0 0 0\<rparr>)
       (Some \<lparr>mass = 1, velocity = Vec3 (- 1) 0 0, rotational_velocity = 0,
              axis_of_rotation = Vec3 1 0 0, rotation = Quat 1 0 0 0\<rparr>)
       [Vec3 1 0 0]
     = Inl FloatNotFinite"
  by (simp add: get_inertia_tensor_def inverse_inertia_def calculate_collisions_def
      mat3_zero_def Let_def)

text \<open>
  C9, amended: whenever \<^verbatim>\<open>calculate_collisions\<close> resolves a collision between two bodies
  that both have physics into bodies with real velocities (with a contact point this needs
  both colliders to have a vertex and an inertia tensor of non-zero determinant, and
  non-zero masses and impulse denominators), the masses are unchanged and
  \<^verbatim>\<open>m1 * dv1 + m2 * dv2 = 0\<close>: every contact point adds \<^verbatim>\<open>impulse / m1\<close> to the velocity of
  body 1 and \<^verbatim>\<open>-impulse / m2\<close> to that of body 2. The equation needs neither equal masses
  nor a zero friction impulse, so it holds in particular in the case the claim names.
  Arithmetic is exact in the model.
\<close>

theorem calculate_collisions_conserves_momentum:
  assumes "calculate_collisions normal collider1 collider2 (Some body1) (Some body2) contact_points
             = Inr (Some body1', Some body2')"
  shows "mass body1' = mass body1 \<and> mass body2' = mass body2
         \<and> vec_add (vec_scale (mass body1) (vec_sub (velocity body1') (velocity body1)))
                   (vec_scale (mass body2) (vec_sub (velocity body2') (velocity body2)))
             = Vec3 0 0 0"
proof -
  from assms have m1: "mass body1 \<noteq> 0" and m2: "mass body2 \<noteq> 0"
    by (auto simp: calculate_collisions_def split: if_splits)
  from assms m1 m2 obtain inv_inertia1 inv_inertia2 where
    "collisions_loop2 contact_points normal collider1 collider2 (1 / mass body1) (1 / mass body2)
       inv_inertia1 inv_inertia2
       (max (elasticity collider1) (elasticity collider2)) (8 / 10)
       (min (static_friction collider1) (static_friction collider2))
       (real (length contact_points)) body1 body2 = Inr (body1', body2')"
    by (auto simp: calculate_collisions_def Let_def
        split: sum.splits if_splits option.splits prod.splits)
  from collisions_loop2_impulse [OF this] obtain J where
    "velocity body1' = vec_add (velocity body1) (vec_scale (1 / mass body1) J)"
    "velocity body2' = vec_add (velocity body2) (vec_scale (1 / mass body2) (vec_neg J))"
    "mass body1' = mass body1" "mass body2' = mass body2"
    by blast
  then show ?thesis using momentum_cancels [OF m1 m2] by simp
qed

lemma py_round3_minus_two: "py_round3 (- 2) = - 2"
  by (simp add: py_round3_def py_round_half_even_def Let_def)

lemma elastic_bounce_run:
  "calculate_collisions (Vec3 1 0 0)
       \<lparr>data = [0, 0, 0, 1, 1, 1, 0, 0, 0],
        unique_points = [Vec3 1 0 0, Vec3 (- 1) 0 0, Vec3 0 1 0, Vec3 0 (- 1) 0, Vec3 0 0 1,
                         Vec3 0 0 (- 1)],
        vertices = [Vec3 1 0 0, Vec3 (- 1) 0 0, Vec3 0 1 0, Vec3 0 (- 1) 0, Vec3 0 0 1,
                    Vec3 0 0 (- 1)],
        dimensions = Vec3 2 2 2, geometric_center = Vec3 0 0 0, base_volume = 8,
        static = False, elasticity = 1,
        inertia_tensor = Mat3 (Vec3 (2 / 3) 0 0) (Vec3 0 (2 / 3) 0) (Vec3 0 0 (2 / 3)),
        static_friction = 8 / 10, kinetic_friction = 4 / 10\<rparr>
       \<lparr>data = [2, 0, 0, 1, 1, 1, 0, 0, 0],
        unique_points = [Vec3 1 0 0, Vec3 (- 1) 0 0, Vec3 0 1 0, Vec3 0 (- 1) 0, Vec3 0 0 1,
                         Vec3 0 0 (- 1)],
        vertices = [Vec3 3 0 0, Vec3 1 0 0, Vec3 2 1 0, Vec3 2 (- 1) 0, Vec3 2 0 1,
                    Vec3 2 0 (- 1)],
        dimensions = Vec3 2 2 2, geometric_center = Vec3 2 0 0, base_volume = 8,
        static = False, elasticity = 1,
        inertia_tensor = Mat3 (Vec3 (2 / 3) 0 0) (Vec3 0 (2 / 3) 0) (Vec3 0 0 (2 / 3)),
        static_friction = 8 / 10, kinetic_friction = 4 / 10\<rparr>
       (Some \<lparr>mass = 1, velocity = Vec3 1 0 0, rotational_velocity = 0,
        axis_of_rotation = Vec3 1 0 0, rotation = Quat 1 0 0 0\<rparr>)
       (Some \<lparr>mass = 1, velocity = Vec3 (- 1) 0 0, rotational_velocity = 0,
        axis_of_rotation = Vec3 1 0 0, rotation = Quat 1 0 0 0\<rparr>)
       [Vec3 1 0 0]
   = Inr (Some \<lparr>mass = 1, velocity = Vec3 (- 1) 0 0, rotational_velocity = 0,
        axis_of_rotation = Vec3 1 0 0, rotation = Quat 1 0 0 0\<rparr>,
            Some \<lparr>mass = 1, velocity = Vec3 1 0 0, rotational_velocity = 0,
        axis_of_rotation = Vec3 1 0 0, rotation = Quat 1 0 0 0\<rparr>)"
  by (simp add: calculate_collisions_def inverse_inertia_def get_inertia_tensor_def
      mat3_zero_def Let_def calculate_impulse2_def impulse2_unrounded_def
      friction_impulse2_def glm_length_def apply_impulse_def py_round3_minus_two
      py_round3_zero)

theorem calculate_collisions_conserves_momentum_witness:
  "calculate_collisions (Vec3 1 0 0)
       \<lparr>data = [0, 0, 0, 1, 1, 1, 0, 0, 0],
        unique_points = [Vec3 1 0 0, Vec3 (- 1) 0 0, Vec3 0 1 0, Vec3 0 (- 1) 0, Vec3 0 0 1,
                         Vec3 0 0 (- 1)],
        vertices = [Vec3 1 0 0, Vec3 (- 1) 0 0, Vec3 0 1 0, Vec3 0 (- 1) 0, Vec3 0 0 1,
                    Vec3 0 0 (- 1)],
        dimensions = Vec3 2 2 2, geometric_center = Vec3 0 0 0, base_volume = 8,
        static = False, elasticity = 1,
        inertia_tensor = Mat3 (Vec3 (2 / 3) 0 0) (Vec3 0 (2 / 3) 0) (Vec3 0 0 (2 / 3)),
        static_friction = 8 / 10, kinetic_friction = 4 / 10\<rparr>
       \<lparr>data = [2, 0, 0, 1, 1, 1, 0, 0, 0],
        unique_points = [Vec3 1 0 0, Vec3 (- 1) 0 0, Vec3 0 1 0, Vec3 0 (- 1) 0, Vec3 0 0 1,
                         Vec3 0 0 (- 1)],
        vertices = [Vec3 3 0 0, Vec3 1 0 0, Vec3 2 1 0, Vec3 2 (- 1) 0, Vec3 2 0 1,
                    Vec3 2 0 (- 1)],
        dimensions = Vec3 2 2 2, geometric_center = Vec3 2 0 0, base_volume = 8,
        static = False, elasticity = 1,
        inertia_tensor = Mat3 (Vec3 (2 / 3) 0 0) (Vec3 0 (2 / 3) 0) (Vec3 0 0 (2 / 3)),
        static_friction = 8 / 10, kinetic_friction = 4 / 10\<rparr>
       (Some \<lparr>mass = 1, velocity = Vec3 1 0 0, rotational_velocity = 0,
        axis_of_rotation = Vec3 1 0 0, rotation = Quat 1 0 0 0\<rparr>)
       (Some \<lparr>mass = 1, velocity = Vec3 (- 1) 0 0, rotational_velocity = 0,
        axis_of_rotation = Vec3 1 0 0, rotation = Quat 1 0 0 0\<rparr>)
       [Vec3 1 0 0]
   = Inr (Some \<lparr>mass = 1, velocity = Vec3 (- 1) 0 0, rotational_velocity = 0,
        axis_of_rotation = Vec3 1 0 0, rotation = Quat 1 0 0 0\<rparr>,
            Some \<lparr>mass = 1, velocity = Vec3 1 0 0, rotational_velocity = 0,
        axis_of_rotation = Vec3 1 0 0, rotation = Quat 1 0 0 0\<rparr>)
   \<and> (mass \<lparr>mass = 1, velocity = Vec3 (- 1) 0 0, rotational_velocity = 0,
        axis_of_rotation = Vec3 1 0 0, rotation = Quat 1 0 0 0\<rparr> = mass \<lparr>mass = 1, velocity = Vec3 1 0 0, rotational_velocity = 0,
        axis_of_rotation = Vec3 1 0 0, rotation = Quat 1 0 0 0\<rparr>
      \<and> mass \<lparr>mass = 1, velocity = Vec3 1 0 0, rotational_velocity = 0,
        axis_of_rotation = Vec3 1 0 0, rotation = Quat 1 0 0 0\<rparr> = mass \<lparr>mass = 1, velocity = Vec3 (- 1) 0 0, rotational_velocity = 0,
        axis_of_rotation = Vec3 1 0 0, rotation = Quat 1 0 0 0\<rparr>
      \<and> vec_add (vec_scale (mass \<lparr>mass = 1, velocity = Vec3 1 0 0, rotational_velocity = 0,
        axis_of_rotation = Vec3 1 0 0, rotation = Quat 1 0 0 0\<rparr>)
                  (vec_sub (velocity \<lparr>mass = 1, velocity = Vec3 (- 1) 0 0, rotational_velocity = 0,
        axis_of_rotation = Vec3 1 0 0, rotation = Quat 1 0 0 0\<rparr>) (velocity \<lparr>mass = 1, velocity = Vec3 1 0 0, rotational_velocity = 0,
        axis_of_rotation = Vec3 1 0 0, rotation = Quat 1 0 0 0\<rparr>)))
                (vec_scale (mass \<lparr>mass = 1, velocity = Vec3 (- 1) 0 0, rotational_velocity = 0,
        axis_of_rotation = Vec3 1 0 0, rotation = Quat 1 0 0 0\<rparr>)
                  (vec_sub (velocity \<lparr>mass = 1, velocity = Vec3 1 0 0, rotational_velocity = 0,
        axis_of_rotation = Vec3 1 0 0, rotation = Quat 1 0 0 0\<rparr>) (velocity \<lparr>mass = 1, velocity = Vec3 (- 1) 0 0, rotational_velocity = 0,
        axis_of_rotation = Vec3 1 0 0, rotation = Quat 1 0 0 0\<rparr>)))
          = Vec3 0 0 0)"
  by (rule conjI [OF elastic_bounce_run
        calculate_collisions_conserves_momentum [OF elastic_bounce_run]])

end
